theory Spec2Isabelle
  imports Complex_Main "HOL-Library.AList"
begin

section \<open>Python values shared by the two classifiers\<close>

text \<open>
  Python floats are modelled as \<^typ>\<open>real\<close>: every threshold of the source is a decimal
  constant and every comparison is read over the reals. NaN, the one float the code
  tests for explicitly (\<^verbatim>\<open>np.isnan(corr)\<close>), is \<^term>\<open>None\<close> of a \<^typ>\<open>real option\<close>.

  A Python \<^verbatim>\<open>str\<close> that carries a glyph is a list of Unicode code points (\<open>ustr\<close>);
  the strings the code computes with (category keys, keywords, captions) are
  \<^typ>\<open>string\<close>, whose characters are read as the code points 0 to 255.
\<close>

type_synonym ustr = "nat list"

definition u :: "string \<Rightarrow> ustr" where
  "u s = map of_char s"

text \<open>
  An exception carries the text that \<^verbatim>\<open>str(e)\<close> yields. \<open>ExternalError\<close> is whatever
  a library call (NumPy, OpenCV, scikit-learn, Pillow, requests) raises.
\<close>

datatype exn =
    ZeroDivisionError string
  | ValueError string
  | AttributeError string
  | ExternalError string

fun exn_str :: "exn \<Rightarrow> string" where
  "exn_str (ZeroDivisionError m) = m"
| "exn_str (ValueError m) = m"
| "exn_str (AttributeError m) = m"
| "exn_str (ExternalError m) = m"

definition bind_exn :: "exn + 'a \<Rightarrow> ('a \<Rightarrow> exn + 'b) \<Rightarrow> exn + 'b" where
  "bind_exn m f = (case m of Inl e \<Rightarrow> Inl e | Inr v \<Rightarrow> f v)"

text \<open>Python's \<^verbatim>\<open>/\<close> on its own numbers raises on a zero divisor.\<close>

definition py_div :: "real \<Rightarrow> real \<Rightarrow> exn + real" where
  "py_div a b = (if b = 0 then Inl (ZeroDivisionError ''division by zero'') else Inr (a / b))"

text \<open>
  \<^verbatim>\<open>height, width = a.shape\<close>: unpacking a tuple that has not exactly two
  components raises \<^verbatim>\<open>ValueError\<close>.
\<close>

fun unpack2 :: "nat list \<Rightarrow> exn + nat \<times> nat" where
  "unpack2 [] = Inl (ValueError ''not enough values to unpack (expected 2, got 0)'')"
| "unpack2 [a] = Inl (ValueError ''not enough values to unpack (expected 2, got 1)'')"
| "unpack2 [a, b] = Inr (a, b)"
| "unpack2 (a # b # c # cs) = Inl (ValueError ''too many values to unpack (expected 2)'')"

text \<open>
  Rounding to the nearest integer, a tie going to the even one; \<^verbatim>\<open>round(x, 1)\<close> is
  the nearest multiple of one tenth.
\<close>

definition round_half_even :: "real \<Rightarrow> int" where
  "round_half_even y =
     (let f = \<lfloor>y\<rfloor>; d = y - of_int f
      in if d < 1 / 2 then f else if 1 / 2 < d then f + 1
         else if even f then f else f + 1)"

definition py_round1 :: "real \<Rightarrow> real" where
  "py_round1 x = of_int (round_half_even (x * 10)) / 10"

text \<open>
  The values a result dictionary holds; a dictionary is an association list in
  insertion order. \<open>Str\<close> is a \<^verbatim>\<open>str\<close> of code points below 256, \<open>UStr\<close> a \<^verbatim>\<open>str\<close> given
  by its code points (the \<^verbatim>\<open>type\<close> strings, which start with a glyph).
\<close>

datatype pyval =
    Str string
  | UStr ustr
  | Num real
  | StrList "string list"
  | Dict "(string \<times> pyval) list"

type_synonym pydict = "(string \<times> pyval) list"

text \<open>\<^verbatim>\<open>d.get(k, default)\<close>.\<close>

definition dict_get :: "(string \<times> 'v) list \<Rightarrow> string \<Rightarrow> 'v \<Rightarrow> 'v" where
  "dict_get d k dflt = (case map_of d k of Some v \<Rightarrow> v | None \<Rightarrow> dflt)"

section \<open>The image as the classifiers observe it\<close>

text \<open>
  Both classifiers look at a Pillow image only through NumPy, OpenCV and scikit-learn.
  The record holds what each of those calls yields on the image; a call that can raise
  yields \<open>Inl\<close> of the exception. The arithmetic the source does on the outcomes
  (ratios, sums over contours, thresholds) is in the functions below.
\<close>

record image =
  shape :: "nat list"
    \<comment> \<open>\<^verbatim>\<open>np.array(image).shape\<close>\<close>
  unique_colors :: nat
    \<comment> \<open>\<^verbatim>\<open>len(np.unique(img_array.reshape(-1, img_array.shape[-1]), axis=0))\<close>\<close>
  cvt_gray :: "exn + unit"
    \<comment> \<open>\<^verbatim>\<open>cv2.cvtColor(img_array, cv2.COLOR_RGB2GRAY)\<close>: raises, or a height by width array\<close>
  gray_mean :: real
    \<comment> \<open>\<^verbatim>\<open>np.mean(gray)\<close>\<close>
  gray_std :: real
    \<comment> \<open>\<^verbatim>\<open>np.std(gray)\<close>\<close>
  canny_edges :: "exn + nat"
    \<comment> \<open>\<^verbatim>\<open>np.sum(cv2.Canny(gray, 50, 150) > 0)\<close>\<close>
  hsv_stats :: "exn + real \<times> real"
    \<comment> \<open>\<^verbatim>\<open>cv2.cvtColor(img_array, cv2.COLOR_RGB2HSV)\<close>, then the mean of channel 1 and the
        variance of channel 0\<close>
  reshape_rgb :: "exn + nat"
    \<comment> \<open>\<^verbatim>\<open>img_array.reshape(-1, 3)\<close>: raises, or the number of distinct rows\<close>
  kmeans_fit :: "nat \<Rightarrow> exn + nat"
    \<comment> \<open>\<^verbatim>\<open>KMeans(n_clusters=k, random_state=42).fit(pixels)\<close>: raises, or
        \<^verbatim>\<open>len(kmeans.cluster_centers_)\<close>\<close>
  text_contours :: "exn + (real \<times> nat \<times> nat) list"
    \<comment> \<open>the external contours of the closed image, each as
        (\<^verbatim>\<open>contourArea\<close>, width and height of \<^verbatim>\<open>boundingRect\<close>)\<close>
  hough_lines :: "exn + nat option"
    \<comment> \<open>\<^verbatim>\<open>cv2.HoughLinesP\<close> on the Canny edges: \<^verbatim>\<open>None\<close>, or \<^verbatim>\<open>len(lines)\<close>\<close>
  hough_circles :: "exn + int list option"
    \<comment> \<open>\<^verbatim>\<open>cv2.HoughCircles\<close> (radius 10 to 100): \<^verbatim>\<open>None\<close>, or the rounded radii\<close>
  rect_contours :: "exn + (nat \<times> real) list"
    \<comment> \<open>the external contours of \<^verbatim>\<open>gray\<close>, each as (\<^verbatim>\<open>len(approx)\<close>, \<^verbatim>\<open>contourArea\<close>)\<close>
  corrcoef_h :: "exn + real option"
    \<comment> \<open>\<^verbatim>\<open>np.corrcoef(top.flatten(), bottom.flatten())[0, 1]\<close>; \<open>None\<close> is NaN\<close>
  corrcoef_v :: "exn + real option"
    \<comment> \<open>\<^verbatim>\<open>np.corrcoef(left.flatten(), right.flatten())[0, 1]\<close>; \<open>None\<close> is NaN\<close>
  scatter_circles :: "exn + nat option"
    \<comment> \<open>\<^verbatim>\<open>cv2.HoughCircles\<close> on \<^verbatim>\<open>image.convert('L')\<close> (radius 1 to 10): \<^verbatim>\<open>None\<close>, or
        \<^verbatim>\<open>len(circles[0])\<close>\<close>
  png_save :: "exn + unit"
    \<comment> \<open>\<^verbatim>\<open>image.save(img_buffer, format='PNG')\<close>\<close>
  array_mean :: "real option"
    \<comment> \<open>\<^verbatim>\<open>np.mean(img_array)\<close>; \<open>None\<close> is NaN, the mean of an empty array\<close>
  mean_gray_canny :: "exn + nat"
    \<comment> \<open>\<^verbatim>\<open>np.sum(cv2.Canny(gray.astype(np.uint8), 50, 150) > 0)\<close> on the channel mean\<close>

section \<open>The rule-based classifier (figure\_classifier.py)\<close>

record features =
  aspect_ratio :: real
  brightness :: real
  contrast :: real
  edge_density :: real
  color_diversity :: real
  text_ratio :: real
  line_density :: real
  circle_ratio :: real
  rectangle_ratio :: real
  symmetry_horizontal :: real
  symmetry_vertical :: real
  dominant_color_count :: real
  saturation_mean :: real
  hue_variance :: real

text \<open>The classifier object; \<^verbatim>\<open>self.confidence_score\<close> is its only mutable field.\<close>

record classifier =
  confidence_score :: real

definition map_to_label :: "string \<Rightarrow> ustr" where
  "map_to_label category =
     dict_get
       [(''bar_chart'', 0x1F4CA # u '' Bar Chart''),
        (''line_graph'', 0x1F4C8 # u '' Line Graph''),
        (''pie_chart'', 0x1F7E2 # u '' Pie Chart''),
        (''timeline'', 0x23F0 # u '' Timeline''),
        (''photograph'', 0x1F4F7 # u '' Photograph''),
        (''table'', 0x1F4CB # u '' Table''),
        (''scatter_plot'', 0x1F535 # u '' Scatter Plot''),
        (''flowchart'', 0x1F4D0 # u '' Flowchart''),
        (''scientific_diagram'', 0x1F4D0 # u '' Scientific Diagram''),
        (''map'', 0x1F5FA # 0xFE0F # u '' Map''),
        (''diagram'', 0x1F4D0 # u '' Other Diagram'')]
       category (0x1F4D0 # u '' Other Diagram'')"

definition get_brief_description :: "string \<Rightarrow> string" where
  "get_brief_description category =
     dict_get
       [(''bar_chart'', ''Vertical or horizontal bars used to compare values.''),
        (''line_graph'', ''Continuous line to show trends over time or data.''),
        (''pie_chart'', ''Circular chart divided into slices.''),
        (''timeline'', ''Horizontal layout showing chronological events.''),
        (''photograph'', ''High color and texture variation, likely image capture.''),
        (''table'', ''Grid of cells with rows and columns of text.''),
        (''scatter_plot'', ''Many small dots or shapes scattered across axes.''),
        (''flowchart'', ''Connected shapes representing steps or decisions.''),
        (''scientific_diagram'', ''Symmetric, structured layout with labeled parts.''),
        (''map'', ''Irregular shapes and colors suggest geographic layout.''),
        (''diagram'', ''Generic illustration, often grayscale or text-heavy.'')]
       category ''Grayscale content, likely diagram or text''"

subsection \<open>The probes of rules 8 and 9\<close>

definition is_scatter_plot :: "features \<Rightarrow> image \<Rightarrow> exn + bool" where
  "is_scatter_plot f img =
     bind_exn (scatter_circles img)
       (\<lambda>circles. Inr (case circles of None \<Rightarrow> False | Some n \<Rightarrow> 20 < n))"

definition is_map_like :: "features \<Rightarrow> image \<Rightarrow> bool" where
  "is_map_like f img =
     (0.05 < color_diversity f \<and>
      0.1 < edge_density f \<and> edge_density f < 0.3 \<and>
      symmetry_horizontal f < 0.3 \<and>
      symmetry_vertical f < 0.3)"

subsection \<open>The decision list\<close>

text \<open>
  The function returns the category, or the exception the scatter-plot probe raised,
  together with the classifier as the body left it. The baseline 0.5 is written first
  and is what the object holds when the probe raises.
\<close>

definition rule_based_classification ::
  "classifier \<Rightarrow> features \<Rightarrow> image \<Rightarrow> (exn + string) \<times> classifier" where
  "rule_based_classification self f img =
     (let self = self\<lparr>confidence_score := 0.5\<rparr> in
      if 0.3 < circle_ratio f then
        (Inr ''pie_chart'', self\<lparr>confidence_score := 0.8\<rparr>)
      else if 0.4 < rectangle_ratio f \<and> text_ratio f < 0.3 then
        (Inr ''bar_chart'', self\<lparr>confidence_score := 0.7\<rparr>)
      else if 0.3 < line_density f \<and> rectangle_ratio f < 0.2 then
        (Inr ''line_graph'', self\<lparr>confidence_score := 0.7\<rparr>)
      else if 0.4 < text_ratio f then
        (Inr ''table'', self\<lparr>confidence_score := 0.6\<rparr>)
      else if 0.2 < edge_density f \<and> 0.2 < rectangle_ratio f then
        (Inr ''flowchart'', self\<lparr>confidence_score := 0.6\<rparr>)
      else if edge_density f < 0.1 \<and> 0.1 < color_diversity f then
        (Inr ''photograph'', self\<lparr>confidence_score := 0.6\<rparr>)
      else if 0.7 < symmetry_horizontal f \<or> 0.7 < symmetry_vertical f then
        (Inr ''scientific_diagram'', self\<lparr>confidence_score := 0.6\<rparr>)
      else
        (case is_scatter_plot f img of
           Inl e \<Rightarrow> (Inl e, self)
         | Inr True \<Rightarrow> (Inr ''scatter_plot'', self\<lparr>confidence_score := 0.7\<rparr>)
         | Inr False \<Rightarrow>
             if is_map_like f img then
               (Inr ''map'', self\<lparr>confidence_score := 0.6\<rparr>)
             else
               (Inr ''diagram'', self\<lparr>confidence_score := 0.4\<rparr>)))"

subsection \<open>Feature extraction\<close>

text \<open>
  The loop of \<^verbatim>\<open>_estimate_text_ratio\<close> over the contours, with \<^verbatim>\<open>text_area\<close> as the
  accumulator.
\<close>

fun text_area_loop :: "(real \<times> nat \<times> nat) list \<Rightarrow> real \<Rightarrow> real" where
  "text_area_loop [] text_area = text_area"
| "text_area_loop ((area, w, h) # contours) text_area =
     text_area_loop contours
       (if h < 50 \<and> 20 < w \<and> 100 < area then text_area + area else text_area)"

definition estimate_text_ratio :: "image \<Rightarrow> nat \<times> nat \<Rightarrow> exn + real" where
  "estimate_text_ratio img gray_shape =
     bind_exn (text_contours img) (\<lambda>contours.
       let text_area = text_area_loop contours 0;
           total_area = fst gray_shape * snd gray_shape
       in py_div text_area (real total_area))"

definition detect_lines :: "image \<Rightarrow> nat \<times> nat \<Rightarrow> exn + real" where
  "detect_lines img gray_shape =
     bind_exn (hough_lines img) (\<lambda>lines.
       case lines of
         None \<Rightarrow> Inr 0
       | Some n \<Rightarrow> py_div (real n) (real (fst gray_shape * snd gray_shape) / 10000))"

text \<open>\<^verbatim>\<open>np.pi\<close>, the double nearest to \<open>\<pi>\<close>, as the rational it is.\<close>

definition np_pi :: real where
  "np_pi = 884279719003555 / 281474976710656"

text \<open>
  \<^verbatim>\<open>total_circle_area\<close> is a NumPy float, so the last division of \<^verbatim>\<open>_detect_circles\<close>
  does not raise on a zero area. The area is positive wherever this function is
  reached: \<^verbatim>\<open>_estimate_text_ratio\<close> runs first and raises on a zero area.
\<close>

definition detect_circles :: "image \<Rightarrow> nat \<times> nat \<Rightarrow> exn + real" where
  "detect_circles img gray_shape =
     bind_exn (hough_circles img) (\<lambda>circles.
       case circles of
         None \<Rightarrow> Inr 0
       | Some radii \<Rightarrow>
           let total_circle_area = sum_list (map (\<lambda>r. np_pi * of_int r * of_int r) radii);
               total_area = fst gray_shape * snd gray_shape
           in Inr (total_circle_area / real total_area))"

fun rectangle_area_loop :: "(nat \<times> real) list \<Rightarrow> real \<Rightarrow> real" where
  "rectangle_area_loop [] rectangle_area = rectangle_area"
| "rectangle_area_loop ((n_approx, area) # contours) rectangle_area =
     rectangle_area_loop contours
       (if n_approx = 4 then rectangle_area + area else rectangle_area)"

definition detect_rectangles :: "image \<Rightarrow> nat \<times> nat \<Rightarrow> exn + real" where
  "detect_rectangles img gray_shape =
     bind_exn (rect_contours img) (\<lambda>contours.
       let rectangle_area = rectangle_area_loop contours 0;
           total_area = fst gray_shape * snd gray_shape
       in py_div rectangle_area (real total_area))"

text \<open>
  \<^verbatim>\<open>_calculate_symmetry\<close>: the halves are cut and mirrored by NumPy, the correlation
  is NumPy's; the last line is the source's own.
\<close>

definition calculate_symmetry :: "image \<Rightarrow> nat \<Rightarrow> exn + real" where
  "calculate_symmetry img axis =
     bind_exn (if axis = 0 then corrcoef_h img else corrcoef_v img) (\<lambda>corr.
       Inr (case corr of None \<Rightarrow> 0 | Some c \<Rightarrow> max 0 c))"

text \<open>
  \<^verbatim>\<open>_count_dominant_colors\<close>: the reshape stands before the \<^verbatim>\<open>try\<close>, the clustering
  inside it.
\<close>

definition count_dominant_colors :: "image \<Rightarrow> exn + nat" where
  "count_dominant_colors img =
     bind_exn (reshape_rgb img) (\<lambda>n_unique.
       Inr (case kmeans_fit img (min 8 n_unique) of Inl e \<Rightarrow> 1 | Inr k \<Rightarrow> k))"

text \<open>
  \<^verbatim>\<open>edge_density\<close> divides a NumPy integer, which yields NaN or infinity on a zero
  pixel count instead of raising; the model's value there is HOL's \<open>x / 0 = 0\<close>. No
  rule ever reads it: \<open>extract_features_area\<close> below shows that extraction raises on
  every image of zero area.
\<close>

definition extract_features :: "image \<Rightarrow> exn + features" where
  "extract_features img =
     bind_exn (if length (shape img) = 3
               then bind_exn (cvt_gray img) (\<lambda>_. Inr (take 2 (shape img)))
               else Inr (shape img)) (\<lambda>gray_shape.
     bind_exn (unpack2 gray_shape) (\<lambda>(height, width).
     bind_exn (py_div (real width) (real height)) (\<lambda>aspect.
     bind_exn (canny_edges img) (\<lambda>edges.
     bind_exn (if length (shape img) = 3
               then
                 bind_exn (py_div (real (unique_colors img)) (real (height * width))) (\<lambda>diversity.
                 bind_exn (hsv_stats img) (\<lambda>(sat_mean, hue_var).
                 bind_exn (count_dominant_colors img) (\<lambda>dominant.
                   Inr (diversity, sat_mean, hue_var, real dominant))))
               else Inr (0, 0, 0, 1)) (\<lambda>(diversity, sat_mean, hue_var, dominant).
     bind_exn (estimate_text_ratio img (height, width)) (\<lambda>text.
     bind_exn (detect_lines img (height, width)) (\<lambda>lines.
     bind_exn (detect_circles img (height, width)) (\<lambda>circles.
     bind_exn (detect_rectangles img (height, width)) (\<lambda>rectangles.
     bind_exn (calculate_symmetry img 0) (\<lambda>sym_h.
     bind_exn (calculate_symmetry img 1) (\<lambda>sym_v.
       Inr \<lparr>aspect_ratio = aspect,
            brightness = gray_mean img,
            contrast = gray_std img,
            edge_density = real edges / real (height * width),
            color_diversity = diversity,
            text_ratio = text,
            line_density = lines,
            circle_ratio = circles,
            rectangle_ratio = rectangles,
            symmetry_horizontal = sym_h,
            symmetry_vertical = sym_v,
            dominant_color_count = dominant,
            saturation_mean = sat_mean,
            hue_variance = hue_var\<rparr>)))))))))))"

subsection \<open>The public boundary\<close>

definition error_result :: "exn \<Rightarrow> pydict" where
  "error_result e =
     [(''type'', UStr (0x1F4D0 # u '' Other Diagram'')),
      (''confidence'', Num 30.0),
      (''description'', Str ''Grayscale content, likely diagram or text''),
      (''reasoning'', Str (''Error during classification: '' @ exn_str e))]"

definition rule_result :: "string \<Rightarrow> classifier \<Rightarrow> pydict" where
  "rule_result category self =
     [(''type'', UStr (map_to_label category)),
      (''confidence'', Num (py_round1 (confidence_score self * 100))),
      (''description'', Str (get_brief_description category)),
      (''reasoning'', Str (''Rule-based decision based on visual features: '' @ category))]"

text \<open>
  \<^verbatim>\<open>FigureClassifier.classify_figure\<close>: the whole body stands in one
  \<^verbatim>\<open>try\<close>/\<^verbatim>\<open>except Exception\<close>.
\<close>

definition classify_figure :: "classifier \<Rightarrow> image \<Rightarrow> pydict \<times> classifier" where
  "classify_figure self img =
     (case extract_features img of
        Inl e \<Rightarrow> (error_result e, self)
      | Inr f \<Rightarrow>
          (case rule_based_classification self f img of
             (Inl e, self') \<Rightarrow> (error_result e, self')
           | (Inr category, self') \<Rightarrow> (rule_result category self', self')))"

section \<open>The caption-keyword classifier (free\_classifier.py)\<close>

subsection \<open>String operations\<close>

text \<open>
  \<^verbatim>\<open>str.lower\<close> on the code points 0 to 255: the letters A to Z and the capital
  letters of Latin-1 (192 to 222, without the multiplication sign 215) move up by 32,
  which sets bit 5.
\<close>

fun py_lower_char :: "char \<Rightarrow> char" where
  "py_lower_char (Char b0 b1 b2 b3 b4 b5 b6 b7) =
     (let n = (of_char (Char b0 b1 b2 b3 b4 b5 b6 b7) :: nat)
      in if (65 \<le> n \<and> n \<le> 90) \<or> (192 \<le> n \<and> n \<le> 222 \<and> n \<noteq> 215)
         then Char b0 b1 b2 b3 b4 True b6 b7
         else Char b0 b1 b2 b3 b4 b5 b6 b7)"

definition py_lower :: "string \<Rightarrow> string" where
  "py_lower s = map py_lower_char s"

text \<open>
  \<^verbatim>\<open>str.title\<close>, which the source applies to category keys only (ASCII letters and
  spaces): a letter after a letter is lowered, any other letter is raised.
\<close>

fun is_ascii_letter :: "char \<Rightarrow> bool" where
  "is_ascii_letter (Char b0 b1 b2 b3 b4 b5 b6 b7) =
     (let n = (of_char (Char b0 b1 b2 b3 b4 b5 b6 b7) :: nat)
      in (65 \<le> n \<and> n \<le> 90) \<or> (97 \<le> n \<and> n \<le> 122))"

fun ascii_set_case :: "bool \<Rightarrow> char \<Rightarrow> char" where
  "ascii_set_case lower (Char b0 b1 b2 b3 b4 b5 b6 b7) =
     (if is_ascii_letter (Char b0 b1 b2 b3 b4 b5 b6 b7)
      then Char b0 b1 b2 b3 b4 lower b6 b7
      else Char b0 b1 b2 b3 b4 b5 b6 b7)"

fun title_loop :: "bool \<Rightarrow> string \<Rightarrow> string" where
  "title_loop previous_is_cased [] = []"
| "title_loop previous_is_cased (c # cs) =
     ascii_set_case previous_is_cased c # title_loop (is_ascii_letter c) cs"

definition py_title :: "string \<Rightarrow> string" where
  "py_title s = title_loop False s"

text \<open>\<^verbatim>\<open>s.replace('_', ' ')\<close>.\<close>

definition replace_underscores :: "string \<Rightarrow> string" where
  "replace_underscores s = map (\<lambda>c. if c = CHR ''_'' then CHR '' '' else c) s"

text \<open>\<^verbatim>\<open>w in s\<close> on strings: \<open>w\<close> occurs in \<open>s\<close> as a contiguous run.\<close>

fun starts_with :: "string \<Rightarrow> string \<Rightarrow> bool" where
  "starts_with s [] = True"
| "starts_with [] (c # w) = False"
| "starts_with (a # s) (c # w) = (a = c \<and> starts_with s w)"

fun py_in :: "string \<Rightarrow> string \<Rightarrow> bool" where
  "py_in w [] = (w = [])"
| "py_in w (c # s) = (starts_with (c # s) w \<or> py_in w s)"

text \<open>\<^verbatim>\<open>" ".join(desc)\<close>.\<close>

fun join_spaces :: "string list \<Rightarrow> string" where
  "join_spaces [] = []"
| "join_spaces [x] = x"
| "join_spaces (x # y # ys) = x @ '' '' @ join_spaces (y # ys)"

text \<open>
  \<^verbatim>\<open>f"{ar:.2f}"\<close> for a ratio that is not negative. \<^verbatim>\<open>ar\<close> is a double: the quotient
  rounded to 53 significant bits, a tie going to the even mantissa (\<open>to_double\<close>, for
  the range of normal doubles; \<open>binary_exponent x\<close> is the \<open>e\<close> with
  \<open>2 ^ e \<le> x < 2 ^ (e + 1)\<close>). The digits printed are those of that double, rounded
  to two places, a tie going to the even digit: \<^verbatim>\<open>1 / 40\<close> is the double just above
  \<open>0.025\<close> and prints as \<^verbatim>\<open>0.03\<close>, \<^verbatim>\<open>3 / 200\<close> the double just below \<open>0.015\<close> and
  prints as \<^verbatim>\<open>0.01\<close>.
\<close>

definition digit_char :: "nat \<Rightarrow> char" where
  "digit_char d = ''0123456789'' ! (d mod 10)"

fun dec_str :: "nat \<Rightarrow> string" where
  "dec_str n = (if n < 10 then [digit_char n] else dec_str (n div 10) @ [digit_char (n mod 10)])"

fun bit_length :: "nat \<Rightarrow> nat" where
  "bit_length n = (if n = 0 then 0 else Suc (bit_length (n div 2)))"

definition pow2 :: "int \<Rightarrow> real" where
  "pow2 k = (if 0 \<le> k then 2 ^ nat k else 1 / 2 ^ nat (- k))"

definition binary_exponent :: "real \<Rightarrow> int" where
  "binary_exponent x =
     (if 1 \<le> x then int (bit_length (nat \<lfloor>x\<rfloor>)) - 1
      else - int (bit_length (nat \<lceil>1 / x\<rceil> - 1)))"

definition to_double :: "real \<Rightarrow> real" where
  "to_double x =
     (if x \<le> 0 then 0
      else let e = binary_exponent x
           in of_int (round_half_even (x * pow2 (52 - e))) * pow2 (e - 52))"

definition format_2f :: "real \<Rightarrow> string" where
  "format_2f x =
     (let n = nat (round_half_even (to_double x * 100))
      in dec_str (n div 100) @ ''.'' @ [digit_char (n div 10), digit_char n])"

subsection \<open>The static tables\<close>

definition figure_categories :: "(string \<times> string list) list" where
  "figure_categories =
     [(''bar_chart'', [''bar chart'', ''bar graph'', ''column chart'', ''histogram'', ''bars'']),
      (''pie_chart'', [''pie chart'', ''pie graph'', ''circular chart'', ''donut chart'']),
      (''line_graph'', [''line chart'', ''line graph'', ''trend'', ''curve'', ''time series'']),
      (''scatter_plot'', [''scatter plot'', ''scatter chart'', ''dots'', ''points'', ''correlation'']),
      (''histogram'', [''histogram'', ''distribution'', ''frequency'', ''bins'']),
      (''box_plot'', [''box plot'', ''boxplot'', ''whisker'', ''quartile'']),
      (''heatmap'', [''heatmap'', ''heat map'', ''intensity'', ''color map'', ''gradient'']),
      (''flowchart'', [''flowchart'', ''flow chart'', ''process'', ''workflow'', ''diagram'']),
      (''organizational_chart'', [''organizational chart'', ''org chart'', ''hierarchy'', ''structure'']),
      (''network_diagram'', [''network'', ''graph'', ''nodes'', ''connections'', ''tree'']),
      (''scientific_diagram'', [''molecule'', ''chemical'', ''formula'', ''scientific'', ''laboratory'']),
      (''medical_diagram'', [''anatomy'', ''medical'', ''body'', ''organ'', ''health'']),
      (''engineering_diagram'', [''circuit'', ''schematic'', ''technical'', ''blueprint'', ''engineering'']),
      (''map'', [''map'', ''geographic'', ''location'', ''street'', ''geography'', ''satellite'']),
      (''floor_plan'', [''floor plan'', ''blueprint'', ''layout'', ''room'', ''building'']),
      (''timeline'', [''timeline'', ''chronology'', ''sequence'', ''history'', ''events'']),
      (''table'', [''table'', ''grid'', ''rows'', ''columns'', ''data'', ''spreadsheet'']),
      (''infographic'', [''infographic'', ''information'', ''visual'', ''statistics'']),
      (''photograph'', [''photo'', ''picture'', ''image'', ''real'', ''camera'', ''scene'']),
      (''screenshot'', [''screenshot'', ''screen'', ''interface'', ''software'', ''application'']),
      (''logo'', [''logo'', ''brand'', ''symbol'', ''emblem'', ''company'']),
      (''chart_other'', [''chart'', ''graph'', ''visualization'', ''data'']),
      (''diagram_other'', [''diagram'', ''illustration'', ''drawing'', ''figure'']),
      (''unknown'', [''unclear'', ''unknown'', ''indeterminate''])]"

definition figure_emojis :: "(string \<times> ustr) list" where
  "figure_emojis =
     [(''bar_chart'', [0x1F4CA]),
      (''pie_chart'', [0x1F967]),
      (''line_graph'', [0x1F4C8]),
      (''scatter_plot'', [0x1F4C9]),
      (''histogram'', [0x1F4CA]),
      (''box_plot'', [0x1F4E6]),
      (''heatmap'', [0x1F321, 0xFE0F]),
      (''flowchart'', [0x1F501]),
      (''organizational_chart'', [0x1F5C2, 0xFE0F]),
      (''network_diagram'', [0x1F517]),
      (''scientific_diagram'', [0x1F9EA]),
      (''medical_diagram'', [0x1FAC0]),
      (''engineering_diagram'', [0x1F4D0]),
      (''map'', [0x1F5FA, 0xFE0F]),
      (''floor_plan'', [0x1F3E0]),
      (''timeline'', [0x1F552]),
      (''table'', [0x1F4CB]),
      (''infographic'', [0x1F4CC]),
      (''photograph'', [0x1F4F7]),
      (''screenshot'', [0x1F5A5, 0xFE0F]),
      (''logo'', [0x1F6A9]),
      (''chart_other'', [0x1F522]),
      (''diagram_other'', [0x1F4DD]),
      (''unknown'', [0x2753])]"

subsection \<open>The captioning service\<close>

text \<open>
  What \<^verbatim>\<open>requests.post\<close> yields within its timeout: an exception (timeout, connection
  error), or a response with a status code whose \<^verbatim>\<open>json()\<close> raises or yields a parsed
  value. A parsed object is a dictionary, its keys distinct.
\<close>

datatype json =
    JNull
  | JBool bool
  | JInt int
  | JFloat real
  | JStr string
  | JList "json list"
  | JObj "(string \<times> json) list"

record response =
  status_code :: int
  json_body :: "exn + json"

fun py_type_name :: "json \<Rightarrow> string" where
  "py_type_name JNull = ''NoneType''"
| "py_type_name (JBool b) = ''bool''"
| "py_type_name (JInt i) = ''int''"
| "py_type_name (JFloat x) = ''float''"
| "py_type_name (JStr s) = ''str''"
| "py_type_name (JList xs) = ''list''"
| "py_type_name (JObj d) = ''dict''"

definition no_attribute :: "json \<Rightarrow> string \<Rightarrow> exn" where
  "no_attribute v name =
     AttributeError ([CHR 0x27] @ py_type_name v @ [CHR 0x27] @ '' object has no attribute ''
                     @ [CHR 0x27] @ name @ [CHR 0x27])"

subsection \<open>The local caption\<close>

definition simple_edge_detection :: "image \<Rightarrow> nat" where
  "simple_edge_detection img = (case mean_gray_canny img of Inl e \<Rightarrow> 0 | Inr n \<Rightarrow> n)"

text \<open>
  The measurements of \<^verbatim>\<open>_analyze_image_locally\<close>: aspect ratio, color diversity,
  brightness and edge density. The last division is NumPy's; its divisor is the one
  \<^verbatim>\<open>color_diversity\<close> has just divided by.
\<close>

definition local_measurements :: "image \<Rightarrow> exn + real \<times> real \<times> real option \<times> real" where
  "local_measurements img =
     bind_exn (unpack2 (take 2 (shape img))) (\<lambda>(height, width).
     bind_exn (py_div (real width) (real height)) (\<lambda>aspect.
       if length (shape img) = 3 then
         bind_exn (py_div (real (unique_colors img)) (real (height * width))) (\<lambda>diversity.
           Inr (aspect, diversity, array_mean img,
                real (simple_edge_detection img) / real (height * width)))
       else Inr (aspect, 0, array_mean img, 0)))"

definition local_words :: "real \<times> real \<times> real option \<times> real \<Rightarrow> string list" where
  "local_words m =
     (case m of (aspect, diversity, bright, edges) \<Rightarrow>
        (if 1.5 < aspect then [''wide''] else if aspect < 0.7 then [''tall''] else [])
        @ (if 0.1 < diversity then [''colorful'']
           else if diversity < 0.01 then [''simple''] else [])
        @ (if 0.2 < edges then [''detailed diagram'']
           else if 0.1 < edges then [''chart''] else [''image''])
        @ (case bright of
             None \<Rightarrow> []
           | Some b \<Rightarrow> if 200 < b then [''bright''] else if b < 100 then [''dark''] else []))"

definition analyze_image_locally :: "image \<Rightarrow> string" where
  "analyze_image_locally img =
     (case local_measurements img of
        Inl e \<Rightarrow> ''visual content''
      | Inr m \<Rightarrow>
          (let desc = local_words m
           in if desc \<noteq> [] then join_spaces desc else ''visual content''))"

text \<open>
  \<^verbatim>\<open>_get_image_description\<close>. The value returned on the success path is whatever
  the service put under \<^verbatim>\<open>generated_text\<close>, a string or not; \<open>None\<close> of the inner
  result is the fall through to the local caption.
\<close>

definition get_image_description :: "image \<Rightarrow> exn + response \<Rightarrow> json" where
  "get_image_description img http =
     (case bind_exn (png_save img) (\<lambda>_.
           bind_exn http (\<lambda>resp.
             if status_code resp = 200 then
               bind_exn (json_body resp) (\<lambda>result.
                 case result of
                   JList (first # rest) \<Rightarrow>
                     (case first of
                        JObj d \<Rightarrow> Inr (Some (dict_get d ''generated_text'' (JStr [])))
                      | _ \<Rightarrow> Inl (no_attribute first ''get''))
                 | _ \<Rightarrow> Inr None)
             else Inr None)) of
        Inl e \<Rightarrow> JStr (analyze_image_locally img)
      | Inr None \<Rightarrow> JStr (analyze_image_locally img)
      | Inr (Some v) \<Rightarrow> v)"

subsection \<open>Keyword scoring and the visual bonuses\<close>

definition keyword_scores :: "string \<Rightarrow> (string \<times> int) list" where
  "keyword_scores desc_lower =
     map (\<lambda>(k, v). (k, sum_list (map (\<lambda>w. int (length w)) (filter (\<lambda>w. py_in w desc_lower) v))))
       figure_categories"

definition positive_scores :: "(string \<times> int) list \<Rightarrow> (string \<times> int) list" where
  "positive_scores scores = filter (\<lambda>(k, v). 0 < v) scores"

text \<open>\<^verbatim>\<open>for t in ts: if t in enhanced: enhanced[t] += n\<close>\<close>

definition add_bonus :: "string list \<Rightarrow> int \<Rightarrow> (string \<times> int) list \<Rightarrow> (string \<times> int) list" where
  "add_bonus ts n enhanced =
     fold (\<lambda>t d. case map_of d t of Some v \<Rightarrow> AList.update t (v + n) d | None \<Rightarrow> d)
       ts enhanced"

definition enhance_classification_with_analysis ::
  "image \<Rightarrow> (string \<times> int) list \<Rightarrow> (string \<times> int) list" where
  "enhance_classification_with_analysis img scores =
     (case bind_exn (unpack2 (take 2 (shape img))) (\<lambda>(h, w).
           bind_exn (py_div (real w) (real h)) (\<lambda>ar.
             let enhanced = scores;
                 enhanced = (if 0.8 \<le> ar \<and> ar \<le> 1.5
                             then add_bonus [''bar_chart'', ''line_graph'', ''scatter_plot''] 5 enhanced
                             else enhanced);
                 enhanced = (if 2 < ar
                             then add_bonus [''timeline'', ''flowchart''] 8 enhanced
                             else enhanced)
             in if length (shape img) = 3 then
                  bind_exn (py_div (real (unique_colors img)) (real (h * w))) (\<lambda>cd.
                    Inr (if 0.1 < cd
                         then add_bonus [''photograph'', ''infographic'', ''map''] 6 enhanced
                         else if cd < 0.01
                         then add_bonus [''bar_chart'', ''line_graph''] 4 enhanced
                         else enhanced))
                else Inr enhanced)) of
        Inl e \<Rightarrow> scores
      | Inr enhanced \<Rightarrow> enhanced)"

text \<open>
  \<^verbatim>\<open>max(enhanced.items(), key=lambda x: x[1])\<close>: the first item whose value no other
  item exceeds.
\<close>

fun max_by_value :: "string \<times> int \<Rightarrow> (string \<times> int) list \<Rightarrow> string \<times> int" where
  "max_by_value best [] = best"
| "max_by_value best (item # items) =
     max_by_value (if snd best < snd item then item else best) items"

subsection \<open>The result dictionaries\<close>

definition generate_description :: "string \<Rightarrow> string \<Rightarrow> string" where
  "generate_description classification original_description =
     (let readable = replace_underscores classification
      in if original_description \<noteq> [] \<and>
            original_description \<notin> set [''visual content'', ''image with visual elements'']
         then py_title readable @ ''. '' @ original_description
         else py_title readable)"

definition extract_visual_elements :: "string \<Rightarrow> string \<Rightarrow> string list" where
  "extract_visual_elements description classification =
     (let elements =
            (if py_in ''chart'' classification \<or> py_in ''graph'' classification
             then [''data visualization'', ''axes'', ''labels'']
             else if py_in ''diagram'' classification then [''shapes'', ''connectors'']
             else if classification = ''photograph'' then [''real objects'', ''natural lighting'']
             else []);
          elements =
            (if description \<noteq> [] then
               (let desc_lower = py_lower description
                in elements
                   @ (if py_in ''text'' desc_lower then [''text content''] else [])
                   @ (if py_in ''color'' desc_lower then [''varied colors''] else [])
                   @ (if py_in ''line'' desc_lower then [''linear elements''] else []))
             else elements)
      in if elements \<noteq> [] then take 5 elements else [''visual content''])"

text \<open>The classifier of this file, with the same single mutable field.\<close>

definition fallback_classification :: "classifier \<Rightarrow> pydict \<times> classifier" where
  "fallback_classification self =
     ([(''classification'', Str ''unknown''),
       (''confidence'', Num 0.3),
       (''description'', Str ''Could not classify figure reliably''),
       (''details'', Dict [(''visual_elements'', StrList [''visual content'']),
                           (''analysis_method'', Str ''Fallback classification'')]),
       (''reasoning'', Str ''No meaningful description or features available'')],
      self\<lparr>confidence_score := 0.3\<rparr>)"

text \<open>
  The branches of \<^verbatim>\<open>_classify_by_visual_analysis\<close>: the color diversity is computed,
  and the aspect ratio compared, only when the array has three dimensions.
\<close>

definition visual_choice :: "image \<Rightarrow> exn + string \<times> real \<times> real" where
  "visual_choice img =
     bind_exn (unpack2 (take 2 (shape img))) (\<lambda>(h, w).
     bind_exn (py_div (real w) (real h)) (\<lambda>ar.
       if length (shape img) = 3 then
         bind_exn (py_div (real (unique_colors img)) (real (h * w))) (\<lambda>cd.
           Inr (if 0.1 < cd then (''photograph'', 0.6, ar)
                else if 2 < ar then (''timeline'', 0.5, ar)
                else if 0.8 \<le> ar \<and> ar \<le> 1.2 then (''chart_other'', 0.5, ar)
                else (''diagram_other'', 0.4, ar)))
       else Inr (''diagram_other'', 0.4, ar)))"

definition classify_by_visual_analysis ::
  "classifier \<Rightarrow> image \<Rightarrow> string \<Rightarrow> pydict \<times> classifier" where
  "classify_by_visual_analysis self img description =
     (case visual_choice img of
        Inl e \<Rightarrow> fallback_classification self
      | Inr (classification, confidence, ar) \<Rightarrow>
          ([(''classification'', Str classification),
            (''confidence'', Num confidence),
            (''description'',
               Str (''Visual analysis suggests a '' @ replace_underscores classification)),
            (''details'', Dict [(''visual_elements'', StrList [''visual content'']),
                                (''analysis_method'', Str ''Fallback visual analysis'')]),
            (''reasoning'',
               Str (''No matching description, classified by aspect ratio '' @ format_2f ar))],
           self\<lparr>confidence_score := confidence\<rparr>))"

text \<open>
  \<^verbatim>\<open>_classify_from_description\<close>. \<^verbatim>\<open>description.lower()\<close> is its first step and
  raises \<^verbatim>\<open>AttributeError\<close> on anything but a string.
\<close>

definition classify_from_description ::
  "classifier \<Rightarrow> json \<Rightarrow> image \<Rightarrow> (exn + pydict) \<times> classifier" where
  "classify_from_description self description img =
     (case description of
        JStr d \<Rightarrow>
          (let desc_lower = py_lower d;
               scores = positive_scores (keyword_scores desc_lower);
               enhanced = enhance_classification_with_analysis img scores
           in case enhanced of
                item # items \<Rightarrow>
                  (let best = max_by_value item items;
                       classification = fst best;
                       confidence = min 0.95 (0.5 + real_of_int (snd best) / 20)
                   in (Inr [(''classification'', Str classification),
                            (''confidence'', Num confidence),
                            (''description'', Str (generate_description classification d)),
                            (''details'',
                               Dict [(''visual_elements'',
                                        StrList (extract_visual_elements d classification)),
                                     (''analysis_method'',
                                        Str ''Free local + HuggingFace analysis'')]),
                            (''reasoning'',
                               Str (''Classified as '' @ classification
                                    @ '' using description '' @ [CHR 0x27] @ d @ [CHR 0x27]))],
                       self\<lparr>confidence_score := confidence\<rparr>))
              | [] \<Rightarrow>
                  (case classify_by_visual_analysis self img d of
                     (result, self') \<Rightarrow> (Inr result, self')))
      | _ \<Rightarrow> (Inl (no_attribute description ''lower''), self))"

text \<open>
  \<^verbatim>\<open>FreeFigureClassifier.classify_figure\<close>. The \<^verbatim>\<open>type\<close> entry is written on the
  path through the \<^verbatim>\<open>try\<close> body; the \<^verbatim>\<open>except\<close> branch returns the fallback
  dictionary as it is.
\<close>

text \<open>
  The f-string of line 82:
  \<^verbatim>\<open>f"{self.figure_emojis.get(classification, '?')} {classification.replace('_', ' ').title()}"\<close>,
  the default glyph being the question mark ornament U+2753.
\<close>

definition rendered_type :: "string \<Rightarrow> ustr" where
  "rendered_type classification =
     dict_get figure_emojis classification [0x2753]
     @ u ('' '' @ py_title (replace_underscores classification))"

definition free_classify_figure ::
  "classifier \<Rightarrow> image \<Rightarrow> exn + response \<Rightarrow> pydict \<times> classifier" where
  "free_classify_figure self img http =
     (let description = get_image_description img http
      in case classify_from_description self description img of
           (Inl e, self') \<Rightarrow> fallback_classification self'
         | (Inr result, self') \<Rightarrow>
             (case dict_get result ''classification'' (Str ''unknown'') of
                Str classification \<Rightarrow>
                  (let result = AList.update ''type'' (UStr (rendered_type classification)) result;
                       result = AList.update ''classification'' (Str classification) result
                   in (result, self'))
              | _ \<Rightarrow> fallback_classification self'))"

section \<open>Concrete inputs\<close>

text \<open>
  A uniformly black image of the given array shape, as the libraries report it: one
  color, no edge, no contour, no line, no circle, and a correlation that is NaN because
  both halves are constant.
\<close>

definition black_image :: "nat list \<Rightarrow> image" where
  "black_image s =
     \<lparr>shape = s, unique_colors = 1, cvt_gray = Inr (), gray_mean = 0, gray_std = 0,
      canny_edges = Inr 0, hsv_stats = Inr (0, 0), reshape_rgb = Inr 1,
      kmeans_fit = (\<lambda>k. Inr k), text_contours = Inr [], hough_lines = Inr None,
      hough_circles = Inr None, rect_contours = Inr [], corrcoef_h = Inr None,
      corrcoef_v = Inr None, scatter_circles = Inr None, png_save = Inr (),
      array_mean = Some 0, mean_gray_canny = Inr 0\<rparr>"

text \<open>
  A black color image of 10 rows and 16 columns holding 8 colors: aspect ratio 1.6 and
  color diversity 0.05, outside every band that earns a visual bonus.
\<close>

definition plain_image :: image where
  "plain_image = (black_image [10, 16, 3])\<lparr>unique_colors := 8\<rparr>"

text \<open>
  A uniformly white image of \<open>h\<close> rows and \<open>w\<close> columns, both at least 2, with the
  further dimensions \<open>cs\<close> of its array (\<open>[]\<close> for one channel, \<open>[3]\<close> for RGB), as the
  libraries report it. The gray image is nonzero everywhere, so \<^verbatim>\<open>cv2.findContours\<close>
  sees one blob: its only contour runs through the four corner pixels, has the area
  \<open>(w - 1) * (h - 1)\<close> and the bounding box \<open>w\<close> by \<open>h\<close>, and its polygon approximation
  has four vertices. Everything else is as on the black image, the brightness apart.
\<close>

definition white_image :: "nat \<Rightarrow> nat \<Rightarrow> nat list \<Rightarrow> image" where
  "white_image h w cs =
     (black_image (h # w # cs))
       \<lparr>gray_mean := 255,
        text_contours := Inr [(real ((w - 1) * (h - 1)), w, h)],
        rect_contours := Inr [(4, real ((w - 1) * (h - 1)))],
        array_mean := Some 255\<rparr>"

definition zero_features :: features where
  "zero_features =
     \<lparr>aspect_ratio = 1, brightness = 0, contrast = 0, edge_density = 0, color_diversity = 0,
      text_ratio = 0, line_density = 0, circle_ratio = 0, rectangle_ratio = 0,
      symmetry_horizontal = 0, symmetry_vertical = 0, dominant_color_count = 1,
      saturation_mean = 0, hue_variance = 0\<rparr>"

definition new_classifier :: classifier where
  "new_classifier = \<lparr>confidence_score = 0\<rparr>"

text \<open>The captioning service answering 200 with one caption.\<close>

definition caption_response :: "json \<Rightarrow> exn + response" where
  "caption_response v =
     Inr \<lparr>status_code = 200, json_body = Inr (JList [JObj [(''generated_text'', v)]])\<rparr>"

section \<open>The rules in the words of the specification\<close>

text \<open>
  The conditions of rules 1 to 7 and 9 in the words of the specification; rule 8 is the
  scatter-plot probe \<open>is_scatter_plot\<close>.
\<close>

definition spec_rule1 :: "features \<Rightarrow> bool" where
  "spec_rule1 f = (circle_ratio f > 0.3)"

definition spec_rule2 :: "features \<Rightarrow> bool" where
  "spec_rule2 f = (rectangle_ratio f > 0.4 \<and> text_ratio f < 0.3)"

definition spec_rule3 :: "features \<Rightarrow> bool" where
  "spec_rule3 f = (line_density f > 0.3 \<and> rectangle_ratio f < 0.2)"

definition spec_rule4 :: "features \<Rightarrow> bool" where
  "spec_rule4 f = (text_ratio f > 0.4)"

definition spec_rule5 :: "features \<Rightarrow> bool" where
  "spec_rule5 f = (edge_density f > 0.2 \<and> rectangle_ratio f > 0.2)"

definition spec_rule6 :: "features \<Rightarrow> bool" where
  "spec_rule6 f = (edge_density f < 0.1 \<and> color_diversity f > 0.1)"

definition spec_rule7 :: "features \<Rightarrow> bool" where
  "spec_rule7 f = (symmetry_horizontal f > 0.7 \<or> symmetry_vertical f > 0.7)"

definition spec_rule9 :: "features \<Rightarrow> bool" where
  "spec_rule9 f =
     (color_diversity f > 0.05 \<and> 0.1 < edge_density f \<and> edge_density f < 0.3 \<and>
      symmetry_horizontal f < 0.3 \<and> symmetry_vertical f < 0.3)"

text \<open>What the policy hands back: the category and the confidence it left in the object.\<close>

definition outcome :: "(exn + string) \<times> classifier \<Rightarrow> exn + string \<times> real" where
  "outcome r =
     (case r of (Inl e, self) \<Rightarrow> Inl e | (Inr c, self) \<Rightarrow> Inr (c, confidence_score self))"

section \<open>Predicates on what the libraries report\<close>

text \<open>
  \<open>library_raises\<close>: the exception is one a library call of feature extraction raised.
  \<open>uniform_signals\<close>: what OpenCV and NumPy report on every image of one color, whatever
  the color and the size: Canny marks no edge, so the Hough transform has no line to
  find, no circle is found, and the correlation of two constant (or empty) halves is
  NaN. The contours are not part of it: a black image has none, and an image of any
  other color is one blob whose contour is its border.
\<close>

definition library_raises :: "image \<Rightarrow> exn \<Rightarrow> bool" where
  "library_raises img e =
     (cvt_gray img = Inl e \<or> canny_edges img = Inl e \<or> hsv_stats img = Inl e \<or>
      reshape_rgb img = Inl e \<or> text_contours img = Inl e \<or> hough_lines img = Inl e \<or>
      hough_circles img = Inl e \<or> rect_contours img = Inl e \<or> corrcoef_h img = Inl e \<or>
      corrcoef_v img = Inl e)"

definition uniform_signals :: "image \<Rightarrow> bool" where
  "uniform_signals img =
     (canny_edges img = Inr 0 \<and>
      hough_lines img = Inr None \<and>
      hough_circles img = Inr None \<and>
      corrcoef_h img = Inr None \<and>
      corrcoef_v img = Inr None \<and>
      scatter_circles img = Inr None)"

section \<open>Categories\<close>

text \<open>The categories \<^verbatim>\<open>_rule_based_classification\<close> returns, in the order of its rules.\<close>

definition rule_categories :: "string list" where
  "rule_categories =
     [''pie_chart'', ''bar_chart'', ''line_graph'', ''table'', ''flowchart'', ''photograph'',
      ''scientific_diagram'', ''scatter_plot'', ''map'', ''diagram'']"

text \<open>The categories both classifiers can return.\<close>

definition shared_categories :: "string list" where
  "shared_categories = filter (\<lambda>c. c \<in> set (map fst figure_categories)) rule_categories"

text \<open>A type string from its first space on: the label without the glyph.\<close>

definition label_text :: "ustr \<Rightarrow> ustr" where
  "label_text s = dropWhile (\<lambda>c. c \<noteq> 32) s"

text \<open>
  The closed enumeration of categories in the specification's data model: the ten
  categories of the rule-based policy and the extended set of the keyword classifier.
\<close>

definition spec_categories :: "string list" where
  "spec_categories =
     [''bar_chart'', ''pie_chart'', ''line_graph'', ''table'', ''flowchart'', ''photograph'',
      ''scientific_diagram'', ''scatter_plot'', ''map'', ''diagram'',
      ''histogram'', ''box_plot'', ''heatmap'', ''organizational_chart'', ''network_diagram'',
      ''medical_diagram'', ''engineering_diagram'', ''floor_plan'', ''timeline'',
      ''infographic'', ''screenshot'', ''logo'', ''chart_other'', ''diagram_other'',
      ''unknown'']"

section \<open>Keyword scoring in the words of the specification\<close>

text \<open>
  A keyword occurs in a caption as a case-insensitive substring: some contiguous run of
  the caption equals the keyword once both are lowered.
\<close>

definition occurs_ignoring_case :: "string \<Rightarrow> string \<Rightarrow> bool" where
  "occurs_ignoring_case w d = (\<exists>p x q. d = p @ x @ q \<and> py_lower x = py_lower w)"

text \<open>
  Lines 149 to 152 of free\_classifier.py in one: the scores of the lowered caption,
  the zero scores dropped, the rest reweighted on the image.
\<close>

definition adjusted_scores :: "image \<Rightarrow> string \<Rightarrow> (string \<times> int) list" where
  "adjusted_scores img d =
     enhance_classification_with_analysis img (positive_scores (keyword_scores (py_lower d)))"

text \<open>The category and the confidence a result dictionary holds.\<close>

definition category_and_confidence :: "pydict \<Rightarrow> pyval option \<times> pyval option" where
  "category_and_confidence r = (map_of r ''classification'', map_of r ''confidence'')"

section \<open>Unfolding sets for evaluation\<close>

lemmas spec_rules =
  spec_rule1_def spec_rule2_def spec_rule3_def spec_rule4_def spec_rule5_def
  spec_rule6_def spec_rule7_def spec_rule9_def

lemmas extract_defs =
  extract_features_def bind_exn_def py_div_def count_dominant_colors_def
  estimate_text_ratio_def detect_lines_def detect_circles_def detect_rectangles_def
  calculate_symmetry_def

lemmas rule_defs =
  rule_based_classification_def is_scatter_plot_def is_map_like_def

lemmas free_defs =
  free_classify_figure_def get_image_description_def classify_from_description_def
  classify_by_visual_analysis_def visual_choice_def fallback_classification_def
  enhance_classification_with_analysis_def analyze_image_locally_def local_measurements_def
  local_words_def simple_edge_detection_def

lemmas table_defs =
  positive_scores_def keyword_scores_def figure_categories_def py_lower_def

lemmas render_defs =
  rendered_type_def figure_emojis_def map_to_label_def dict_get_def py_title_def
  replace_underscores_def u_def

section \<open>Properties of the rule-based classifier\<close>

subsection \<open>The decision list\<close>

text \<open>
  C1. The policy is the ordered decision list of the specification: each rule decides
  exactly when no earlier rule matches, with the category and confidence the
  specification gives, and the default is (diagram, 0.4). An input that satisfies
  rule 1 and rule 2 is a pie chart.
\<close>

theorem rule_based_first_match:
  fixes f :: features and img :: image and self :: classifier
  shows
  "(spec_rule1 f \<longrightarrow>
      outcome (rule_based_classification self f img) = Inr (''pie_chart'', 0.8)) \<and>
   (\<not> spec_rule1 f \<and> spec_rule2 f \<longrightarrow>
      outcome (rule_based_classification self f img) = Inr (''bar_chart'', 0.7)) \<and>
   (\<not> spec_rule1 f \<and> \<not> spec_rule2 f \<and> spec_rule3 f \<longrightarrow>
      outcome (rule_based_classification self f img) = Inr (''line_graph'', 0.7)) \<and>
   (\<not> spec_rule1 f \<and> \<not> spec_rule2 f \<and> \<not> spec_rule3 f \<and> spec_rule4 f \<longrightarrow>
      outcome (rule_based_classification self f img) = Inr (''table'', 0.6)) \<and>
   (\<not> spec_rule1 f \<and> \<not> spec_rule2 f \<and> \<not> spec_rule3 f \<and> \<not> spec_rule4 f \<and>
    spec_rule5 f \<longrightarrow>
      outcome (rule_based_classification self f img) = Inr (''flowchart'', 0.6)) \<and>
   (\<not> spec_rule1 f \<and> \<not> spec_rule2 f \<and> \<not> spec_rule3 f \<and> \<not> spec_rule4 f \<and>
    \<not> spec_rule5 f \<and> spec_rule6 f \<longrightarrow>
      outcome (rule_based_classification self f img) = Inr (''photograph'', 0.6)) \<and>
   (\<not> spec_rule1 f \<and> \<not> spec_rule2 f \<and> \<not> spec_rule3 f \<and> \<not> spec_rule4 f \<and>
    \<not> spec_rule5 f \<and> \<not> spec_rule6 f \<and> spec_rule7 f \<longrightarrow>
      outcome (rule_based_classification self f img) = Inr (''scientific_diagram'', 0.6)) \<and>
   (\<not> spec_rule1 f \<and> \<not> spec_rule2 f \<and> \<not> spec_rule3 f \<and> \<not> spec_rule4 f \<and>
    \<not> spec_rule5 f \<and> \<not> spec_rule6 f \<and> \<not> spec_rule7 f \<and>
    is_scatter_plot f img = Inr True \<longrightarrow>
      outcome (rule_based_classification self f img) = Inr (''scatter_plot'', 0.7)) \<and>
   (\<not> spec_rule1 f \<and> \<not> spec_rule2 f \<and> \<not> spec_rule3 f \<and> \<not> spec_rule4 f \<and>
    \<not> spec_rule5 f \<and> \<not> spec_rule6 f \<and> \<not> spec_rule7 f \<and>
    is_scatter_plot f img = Inr False \<and> spec_rule9 f \<longrightarrow>
      outcome (rule_based_classification self f img) = Inr (''map'', 0.6)) \<and>
   (\<not> spec_rule1 f \<and> \<not> spec_rule2 f \<and> \<not> spec_rule3 f \<and> \<not> spec_rule4 f \<and>
    \<not> spec_rule5 f \<and> \<not> spec_rule6 f \<and> \<not> spec_rule7 f \<and>
    is_scatter_plot f img = Inr False \<and> \<not> spec_rule9 f \<longrightarrow>
      outcome (rule_based_classification self f img) = Inr (''diagram'', 0.4)) \<and>
   (spec_rule1 f \<and> spec_rule2 f \<longrightarrow>
      outcome (rule_based_classification self f img) = Inr (''pie_chart'', 0.8))"
  unfolding spec_rules outcome_def rule_based_classification_def is_map_like_def
  by (simp add: Let_def)

text \<open>
  The theorem at three inputs: circles and rectangles together (rules 1 and 2 both hold),
  more than twenty small circles and nothing else (rule 8), and nothing at all (the
  default).
\<close>

theorem rule_based_first_match_witness:
  "spec_rule1 (zero_features\<lparr>circle_ratio := 0.5, rectangle_ratio := 0.5\<rparr>) \<and>
   spec_rule2 (zero_features\<lparr>circle_ratio := 0.5, rectangle_ratio := 0.5\<rparr>) \<and>
   outcome (rule_based_classification new_classifier
              (zero_features\<lparr>circle_ratio := 0.5, rectangle_ratio := 0.5\<rparr>)
              (black_image [1, 1]))
     = Inr (''pie_chart'', 0.8) \<and>
   outcome (rule_based_classification new_classifier zero_features
              ((black_image [1, 1])\<lparr>scatter_circles := Inr (Some 21)\<rparr>))
     = Inr (''scatter_plot'', 0.7) \<and>
   outcome (rule_based_classification new_classifier zero_features (black_image [1, 1]))
     = Inr (''diagram'', 0.4)"
  using
    rule_based_first_match [of "zero_features\<lparr>circle_ratio := 0.5, rectangle_ratio := 0.5\<rparr>"
      new_classifier "black_image [1, 1]"]
    rule_based_first_match [of zero_features new_classifier
      "(black_image [1, 1])\<lparr>scatter_circles := Inr (Some 21)\<rparr>"]
    rule_based_first_match [of zero_features new_classifier "black_image [1, 1]"]
  by (simp add: spec_rules zero_features_def black_image_def is_scatter_plot_def bind_exn_def)

subsection \<open>The public boundary\<close>

text \<open>
  C3, as the code has it. \<open>classify_figure\<close> is a total function into result
  dictionaries: whatever extraction or rule evaluation raises, the result is the
  degraded one, with the type of category diagram, confidence 30, the description
  "Grayscale content, likely diagram or text" and the error text in the reasoning;
  when nothing is raised the result is the rule result.
\<close>

theorem classify_figure_never_raises:
  fixes self :: classifier and img :: image
  shows
  "(\<forall>e. extract_features img = Inl e \<or>
         (\<exists>f self'. extract_features img = Inr f \<and>
                     rule_based_classification self f img = (Inl e, self')) \<longrightarrow>
        fst (classify_figure self img) =
          [(''type'', UStr (map_to_label ''diagram'')),
           (''confidence'', Num 30),
           (''description'', Str ''Grayscale content, likely diagram or text''),
           (''reasoning'', Str (''Error during classification: '' @ exn_str e))]) \<and>
   (\<forall>f category self'.
        extract_features img = Inr f \<and>
        rule_based_classification self f img = (Inr category, self') \<longrightarrow>
        fst (classify_figure self img) =
          [(''type'', UStr (map_to_label category)),
           (''confidence'', Num (py_round1 (confidence_score self' * 100))),
           (''description'', Str (get_brief_description category)),
           (''reasoning'',
              Str (''Rule-based decision based on visual features: '' @ category))]) \<and>
   map_to_label ''diagram'' = 0x1F4D0 # u '' Other Diagram''"
  by (auto simp: classify_figure_def error_result_def rule_result_def map_to_label_def
        dict_get_def)

theorem classify_figure_never_raises_witness:
  "extract_features (black_image [0, 1]) = Inl (ZeroDivisionError ''division by zero'') \<and>
   fst (classify_figure new_classifier (black_image [0, 1])) =
     [(''type'', UStr (0x1F4D0 # u '' Other Diagram'')),
      (''confidence'', Num 30),
      (''description'', Str ''Grayscale content, likely diagram or text''),
      (''reasoning'', Str ''Error during classification: division by zero'')] \<and>
   fst (classify_figure new_classifier (black_image [1, 1])) =
     [(''type'', UStr (0x1F4D0 # u '' Other Diagram'')),
      (''confidence'', Num 40),
      (''description'', Str ''Generic illustration, often grayscale or text-heavy.''),
      (''reasoning'', Str ''Rule-based decision based on visual features: diagram'')]"
proof -
  have raised: "extract_features (black_image [0, 1]) = Inl (ZeroDivisionError ''division by zero'')"
    by (simp add: extract_defs black_image_def)
  have features: "extract_features (black_image [1, 1]) = Inr zero_features"
    by (simp add: extract_defs black_image_def zero_features_def)
  have rule: "rule_based_classification new_classifier zero_features (black_image [1, 1])
                = (Inr ''diagram'', \<lparr>confidence_score = 0.4\<rparr>)"
    by (simp add: rule_defs bind_exn_def black_image_def zero_features_def new_classifier_def)
  from classify_figure_never_raises [of "black_image [0, 1]" new_classifier]
       classify_figure_never_raises [of "black_image [1, 1]" new_classifier]
       raised features rule
  show ?thesis
    by (simp add: map_to_label_def get_brief_description_def dict_get_def py_round1_def
          round_half_even_def)
qed

text \<open>
  The description of the degraded result is not the string "likely diagram or text":
  on an image of height zero, where the aspect ratio divides by zero, it is the longer
  string above.
\<close>

theorem classify_figure_description_counterexample:
  "extract_features (black_image [0, 1]) = Inl (ZeroDivisionError ''division by zero'') \<and>
   map_of (fst (classify_figure new_classifier (black_image [0, 1]))) ''description''
     \<noteq> Some (Str ''likely diagram or text'')"
  by (simp add: classify_figure_def error_result_def extract_defs black_image_def)

subsection \<open>Degenerate images\<close>

lemma unpack2_Inr: "unpack2 s = Inr (h, w) \<Longrightarrow> s = [h, w]"
  by (cases s rule: unpack2.cases) simp_all

lemma gray_shape_of_image:
  assumes "(if length (shape img) = 3
            then bind_exn (cvt_gray img) (\<lambda>_. Inr (take 2 (shape img)))
            else Inr (shape img)) = Inr [h, w]"
  shows "shape img = [h, w] \<or> (\<exists>c. shape img = [h, w, c])"
proof (cases "length (shape img) = 3")
  case True
  then obtain a b c where abc: "shape img = [a, b, c]"
    by (auto simp: length_Suc_conv numeral_3_eq_3)
  with True assms show ?thesis
    by (auto simp: bind_exn_def split: sum.splits)
next
  case False
  with assms show ?thesis by simp
qed

text \<open>
  Extraction succeeds only on an image of positive height and width: the aspect ratio
  raises on height zero and the text ratio on area zero.
\<close>

lemma extract_features_area:
  assumes "extract_features img = Inr f"
  shows "\<exists>h w. (shape img = [h, w] \<or> (\<exists>c. shape img = [h, w, c])) \<and> 0 < h \<and> 0 < w"
proof -
  from assms obtain s where s:
    "(if length (shape img) = 3
      then bind_exn (cvt_gray img) (\<lambda>_. Inr (take 2 (shape img)))
      else Inr (shape img)) = Inr s"
    unfolding extract_features_def
    by (cases "if length (shape img) = 3
               then bind_exn (cvt_gray img) (\<lambda>_. Inr (take 2 (shape img)))
               else Inr (shape img)") (simp_all add: bind_exn_def)
  from assms s obtain h w where hw: "unpack2 s = Inr (h, w)"
    unfolding extract_features_def
    by (cases "unpack2 s") (auto simp: bind_exn_def)
  then have shape: "s = [h, w]" by (rule unpack2_Inr)
  from assms s hw have h: "h \<noteq> 0"
    unfolding extract_features_def
    by (auto simp: bind_exn_def py_div_def split: if_splits)
  from assms s hw h obtain t where "estimate_text_ratio img (h, w) = Inr t"
    unfolding extract_features_def
    by (cases "estimate_text_ratio img (h, w)")
       (auto simp: bind_exn_def py_div_def split: sum.splits if_splits prod.splits)
  then have "h * w \<noteq> 0"
    by (auto simp: estimate_text_ratio_def bind_exn_def py_div_def Let_def
          split: sum.splits if_splits)
  with h have "0 < h \<and> 0 < w" by simp
  moreover from s shape have "shape img = [h, w] \<or> (\<exists>c. shape img = [h, w, c])"
    by (intro gray_shape_of_image) simp
  ultimately show ?thesis by blast
qed

lemma extract_no_own_exception_gray:
  assumes "shape img = [h, w]" "0 < h" "0 < w" "extract_features img = Inl e"
  shows "library_raises img e"
  using assms
  by (auto simp: extract_defs library_raises_def split: sum.splits option.splits if_splits)

lemma extract_no_own_exception_color:
  assumes "shape img = [h, w, c]" "0 < h" "0 < w" "extract_features img = Inl e"
  shows "library_raises img e"
  using assms
  by (auto simp: extract_defs library_raises_def split: sum.splits option.splits if_splits)

lemma extract_uniform_gray:
  assumes "shape img = [h, w]" "extract_features img = Inr f" "uniform_signals img"
  shows "edge_density f = 0 \<and> line_density f = 0 \<and> circle_ratio f = 0 \<and>
     symmetry_horizontal f = 0 \<and> symmetry_vertical f = 0 \<and> color_diversity f = 0 \<and>
     (\<exists>ts. text_contours img = Inr ts \<and> text_ratio f = text_area_loop ts 0 / real (h * w)) \<and>
     (\<exists>rs. rect_contours img = Inr rs \<and>
           rectangle_ratio f = rectangle_area_loop rs 0 / real (h * w))"
  using assms
  by (auto simp: extract_defs uniform_signals_def split: sum.splits if_splits)

lemma extract_uniform_color:
  assumes "shape img = [h, w, c]" "extract_features img = Inr f" "uniform_signals img"
  shows "edge_density f = 0 \<and> line_density f = 0 \<and> circle_ratio f = 0 \<and>
     symmetry_horizontal f = 0 \<and> symmetry_vertical f = 0 \<and>
     color_diversity f = real (unique_colors img) / real (h * w) \<and>
     (\<exists>ts. text_contours img = Inr ts \<and> text_ratio f = text_area_loop ts 0 / real (h * w)) \<and>
     (\<exists>rs. rect_contours img = Inr rs \<and>
           rectangle_ratio f = rectangle_area_loop rs 0 / real (h * w))"
  using assms
  by (auto simp: extract_defs uniform_signals_def split: sum.splits if_splits)

text \<open>
  With no edge, no line, no circle, no symmetry and a silent scatter-plot probe, rules
  1, 3, 5, 7, 8 and 9 cannot match: the decision is between rules 2, 4 and 6 and the
  default.
\<close>

lemma uniform_decision:
  assumes f: "edge_density f = 0" "line_density f = 0" "circle_ratio f = 0"
      "symmetry_horizontal f = 0" "symmetry_vertical f = 0"
    and probe: "scatter_circles img = Inr None"
  shows "rule_based_classification self f img =
     (if 0.4 < rectangle_ratio f \<and> text_ratio f < 0.3
      then (Inr ''bar_chart'', self\<lparr>confidence_score := 0.7\<rparr>)
      else if 0.4 < text_ratio f
      then (Inr ''table'', self\<lparr>confidence_score := 0.6\<rparr>)
      else if 0.1 < color_diversity f
      then (Inr ''photograph'', self\<lparr>confidence_score := 0.6\<rparr>)
      else (Inr ''diagram'', self\<lparr>confidence_score := 0.4\<rparr>))"
  using f probe by (simp add: rule_defs bind_exn_def Let_def)

lemma rule_result_entries:
  "map_of (rule_result category self) ''type'' = Some (UStr (map_to_label category))"
  "map_of (rule_result category self) ''confidence''
     = Some (Num (py_round1 (confidence_score self * 100)))"
  by (simp_all add: rule_result_def)

lemma py_round1_of_rule_confidences:
  "py_round1 (0.7 * 100) = 70" "py_round1 (0.6 * 100) = 60" "py_round1 (0.4 * 100) = 40"
  "py_round1 70 = 70" "py_round1 60 = 60" "py_round1 40 = 40"
  by (simp_all add: py_round1_def round_half_even_def)

text \<open>
  C9, as the code has it. On an image of positive height and width the divisions of
  feature extraction never raise: an exception of extraction is one a library call
  raised, and the result is then the error-path result with confidence 30. A NaN
  correlation gives symmetry 0. When extraction succeeds on a 1 by 1 or uniformly
  colored image (no edge, no line, no circle, NaN correlations), the edge density, the
  line density, the circle ratio and both symmetries are 0, the color diversity is
  \<open>unique_colors / (h * w)\<close> on a color image and 0 otherwise, and the text and the
  rectangle ratio are the accepted contour areas over \<open>h * w\<close>. The answer is not always
  diagram with 0.4: it is bar\_chart with 0.7 (70 at the boundary) when the rectangle
  ratio exceeds 0.4 and the text ratio is below 0.3, else table with 0.6 (60) when the
  text ratio exceeds 0.4, else photograph with 0.6 (60) when the color diversity exceeds
  0.1, and only otherwise diagram with 0.4 (40).
\<close>

theorem degenerate_image_classification:
  fixes img :: image and self :: classifier and h w c :: nat and f :: features
  shows
  "((shape img = [h, w] \<or> shape img = [h, w, c]) \<and> 0 < h \<and> 0 < w \<longrightarrow>
      (\<forall>e. extract_features img = Inl e \<longrightarrow>
           library_raises img e \<and>
           map_of (fst (classify_figure self img)) ''confidence'' = Some (Num 30))) \<and>
   (corrcoef_h img = Inr None \<longrightarrow> calculate_symmetry img 0 = Inr 0) \<and>
   (corrcoef_v img = Inr None \<longrightarrow> calculate_symmetry img 1 = Inr 0) \<and>
   ((shape img = [h, w] \<or> shape img = [h, w, c]) \<and> extract_features img = Inr f \<and>
    uniform_signals img \<longrightarrow>
      0 < h \<and> 0 < w \<and>
      edge_density f = 0 \<and> line_density f = 0 \<and> circle_ratio f = 0 \<and>
      symmetry_horizontal f = 0 \<and> symmetry_vertical f = 0 \<and>
      color_diversity f
        = (if shape img = [h, w, c] then real (unique_colors img) / real (h * w) else 0) \<and>
      (\<exists>ts. text_contours img = Inr ts \<and>
            text_ratio f = text_area_loop ts 0 / real (h * w)) \<and>
      (\<exists>rs. rect_contours img = Inr rs \<and>
            rectangle_ratio f = rectangle_area_loop rs 0 / real (h * w)) \<and>
      (if 0.4 < rectangle_ratio f \<and> text_ratio f < 0.3
       then confidence_score (snd (classify_figure self img)) = 0.7 \<and>
            map_of (fst (classify_figure self img)) ''type''
              = Some (UStr (map_to_label ''bar_chart'')) \<and>
            map_of (fst (classify_figure self img)) ''confidence'' = Some (Num 70)
       else if 0.4 < text_ratio f
       then confidence_score (snd (classify_figure self img)) = 0.6 \<and>
            map_of (fst (classify_figure self img)) ''type''
              = Some (UStr (map_to_label ''table'')) \<and>
            map_of (fst (classify_figure self img)) ''confidence'' = Some (Num 60)
       else if 0.1 < color_diversity f
       then confidence_score (snd (classify_figure self img)) = 0.6 \<and>
            map_of (fst (classify_figure self img)) ''type''
              = Some (UStr (map_to_label ''photograph'')) \<and>
            map_of (fst (classify_figure self img)) ''confidence'' = Some (Num 60)
       else confidence_score (snd (classify_figure self img)) = 0.4 \<and>
            map_of (fst (classify_figure self img)) ''type''
              = Some (UStr (map_to_label ''diagram'')) \<and>
            map_of (fst (classify_figure self img)) ''confidence'' = Some (Num 40)))"
proof -
  have raised: "library_raises img e \<and>
      map_of (fst (classify_figure self img)) ''confidence'' = Some (Num 30)"
    if dims: "(shape img = [h, w] \<or> shape img = [h, w, c]) \<and> 0 < h \<and> 0 < w"
      and e: "extract_features img = Inl e" for e
  proof
    from dims e show "library_raises img e"
      using extract_no_own_exception_gray extract_no_own_exception_color by blast
    from e show "map_of (fst (classify_figure self img)) ''confidence'' = Some (Num 30)"
      by (simp add: classify_figure_def error_result_def)
  qed
  have sym_h: "calculate_symmetry img 0 = Inr 0" if "corrcoef_h img = Inr None"
    using that by (simp add: calculate_symmetry_def bind_exn_def)
  have sym_v: "calculate_symmetry img 1 = Inr 0" if "corrcoef_v img = Inr None"
    using that by (simp add: calculate_symmetry_def bind_exn_def)
  have uniform: "0 < h \<and> 0 < w \<and>
      edge_density f = 0 \<and> line_density f = 0 \<and> circle_ratio f = 0 \<and>
      symmetry_horizontal f = 0 \<and> symmetry_vertical f = 0 \<and>
      color_diversity f
        = (if shape img = [h, w, c] then real (unique_colors img) / real (h * w) else 0) \<and>
      (\<exists>ts. text_contours img = Inr ts \<and>
            text_ratio f = text_area_loop ts 0 / real (h * w)) \<and>
      (\<exists>rs. rect_contours img = Inr rs \<and>
            rectangle_ratio f = rectangle_area_loop rs 0 / real (h * w)) \<and>
      (if 0.4 < rectangle_ratio f \<and> text_ratio f < 0.3
       then confidence_score (snd (classify_figure self img)) = 0.7 \<and>
            map_of (fst (classify_figure self img)) ''type''
              = Some (UStr (map_to_label ''bar_chart'')) \<and>
            map_of (fst (classify_figure self img)) ''confidence'' = Some (Num 70)
       else if 0.4 < text_ratio f
       then confidence_score (snd (classify_figure self img)) = 0.6 \<and>
            map_of (fst (classify_figure self img)) ''type''
              = Some (UStr (map_to_label ''table'')) \<and>
            map_of (fst (classify_figure self img)) ''confidence'' = Some (Num 60)
       else if 0.1 < color_diversity f
       then confidence_score (snd (classify_figure self img)) = 0.6 \<and>
            map_of (fst (classify_figure self img)) ''type''
              = Some (UStr (map_to_label ''photograph'')) \<and>
            map_of (fst (classify_figure self img)) ''confidence'' = Some (Num 60)
       else confidence_score (snd (classify_figure self img)) = 0.4 \<and>
            map_of (fst (classify_figure self img)) ''type''
              = Some (UStr (map_to_label ''diagram'')) \<and>
            map_of (fst (classify_figure self img)) ''confidence'' = Some (Num 40))"
    if a: "(shape img = [h, w] \<or> shape img = [h, w, c]) \<and> extract_features img = Inr f \<and>
      uniform_signals img"
  proof -
    from a have ok: "extract_features img = Inr f" and quiet: "uniform_signals img"
      by simp_all
    from quiet have probe: "scatter_circles img = Inr None"
      by (simp add: uniform_signals_def)
    from extract_features_area [OF ok] a have pos: "0 < h \<and> 0 < w"
      by auto
    have feats: "edge_density f = 0 \<and> line_density f = 0 \<and> circle_ratio f = 0 \<and>
      symmetry_horizontal f = 0 \<and> symmetry_vertical f = 0 \<and>
      color_diversity f
        = (if shape img = [h, w, c] then real (unique_colors img) / real (h * w) else 0) \<and>
      (\<exists>ts. text_contours img = Inr ts \<and>
            text_ratio f = text_area_loop ts 0 / real (h * w)) \<and>
      (\<exists>rs. rect_contours img = Inr rs \<and>
            rectangle_ratio f = rectangle_area_loop rs 0 / real (h * w))"
    proof (cases "shape img = [h, w, c]")
      case True
      from extract_uniform_color [OF True ok quiet] True show ?thesis by simp
    next
      case False
      with a have gray: "shape img = [h, w]" by simp
      from extract_uniform_gray [OF gray ok quiet] False show ?thesis by simp
    qed
    then have zero: "edge_density f = 0" "line_density f = 0" "circle_ratio f = 0"
      "symmetry_horizontal f = 0" "symmetry_vertical f = 0"
      by simp_all
    note decision = uniform_decision [OF zero probe, of self]
    have answer: "classify_figure self img =
        (rule_result category (self\<lparr>confidence_score := v\<rparr>), self\<lparr>confidence_score := v\<rparr>)"
      if "rule_based_classification self f img = (Inr category, self\<lparr>confidence_score := v\<rparr>)"
      for category v
      using that ok by (simp add: classify_figure_def)
    have verdict:
      "if 0.4 < rectangle_ratio f \<and> text_ratio f < 0.3
       then confidence_score (snd (classify_figure self img)) = 0.7 \<and>
            map_of (fst (classify_figure self img)) ''type''
              = Some (UStr (map_to_label ''bar_chart'')) \<and>
            map_of (fst (classify_figure self img)) ''confidence'' = Some (Num 70)
       else if 0.4 < text_ratio f
       then confidence_score (snd (classify_figure self img)) = 0.6 \<and>
            map_of (fst (classify_figure self img)) ''type''
              = Some (UStr (map_to_label ''table'')) \<and>
            map_of (fst (classify_figure self img)) ''confidence'' = Some (Num 60)
       else if 0.1 < color_diversity f
       then confidence_score (snd (classify_figure self img)) = 0.6 \<and>
            map_of (fst (classify_figure self img)) ''type''
              = Some (UStr (map_to_label ''photograph'')) \<and>
            map_of (fst (classify_figure self img)) ''confidence'' = Some (Num 60)
       else confidence_score (snd (classify_figure self img)) = 0.4 \<and>
            map_of (fst (classify_figure self img)) ''type''
              = Some (UStr (map_to_label ''diagram'')) \<and>
            map_of (fst (classify_figure self img)) ''confidence'' = Some (Num 40)"
    proof (cases "0.4 < rectangle_ratio f \<and> text_ratio f < 0.3")
      case True
      with decision have "rule_based_classification self f img =
          (Inr ''bar_chart'', self\<lparr>confidence_score := 0.7\<rparr>)"
        by (simp only: if_True simp_thms)
      from answer [OF this] True show ?thesis
        by (simp add: rule_result_entries py_round1_of_rule_confidences)
    next
      case no_bars: False
      show ?thesis
      proof (cases "0.4 < text_ratio f")
        case True
        with decision no_bars have "rule_based_classification self f img =
            (Inr ''table'', self\<lparr>confidence_score := 0.6\<rparr>)"
          by (simp only: if_True if_False simp_thms)
        from answer [OF this] True no_bars show ?thesis
          by (simp add: rule_result_entries py_round1_of_rule_confidences)
      next
        case no_table: False
        show ?thesis
        proof (cases "0.1 < color_diversity f")
          case True
          with decision no_bars no_table have "rule_based_classification self f img =
              (Inr ''photograph'', self\<lparr>confidence_score := 0.6\<rparr>)"
            by (simp only: if_True if_False simp_thms)
          from answer [OF this] True no_bars no_table show ?thesis
            by (simp add: rule_result_entries py_round1_of_rule_confidences)
        next
          case False
          with decision no_bars no_table have "rule_based_classification self f img =
              (Inr ''diagram'', self\<lparr>confidence_score := 0.4\<rparr>)"
            by (simp only: if_True if_False simp_thms)
          from answer [OF this] False no_bars no_table show ?thesis
            by (simp add: rule_result_entries py_round1_of_rule_confidences)
        qed
      qed
    qed
    from pos feats verdict show ?thesis by blast
  qed
  from raised sym_h sym_v uniform show ?thesis by blast
qed

text \<open>
  The theorem on five images: a 1 by 1 image on which Canny raises (the error-path
  result, confidence 30), the black 1 by 1 image of one channel (diagram, 40), the black
  1 by 1 color image (photograph, 60), the white 5 by 5 color image (rectangle ratio
  16/25, bar\_chart, 70) and the white 24 by 24 color image (text ratio 529/576,
  table, 60).
\<close>

theorem degenerate_image_classification_witness:
  "extract_features ((black_image [1, 1])\<lparr>canny_edges := Inl (ExternalError ''cv2.error'')\<rparr>)
     = Inl (ExternalError ''cv2.error'') \<and>
   library_raises ((black_image [1, 1])\<lparr>canny_edges := Inl (ExternalError ''cv2.error'')\<rparr>)
     (ExternalError ''cv2.error'') \<and>
   map_of (fst (classify_figure new_classifier
                  ((black_image [1, 1])\<lparr>canny_edges := Inl (ExternalError ''cv2.error'')\<rparr>)))
     ''confidence'' = Some (Num 30) \<and>
   calculate_symmetry (black_image [1, 1]) 0 = Inr 0 \<and>
   calculate_symmetry (black_image [1, 1]) 1 = Inr 0 \<and>
   uniform_signals (black_image [1, 1]) \<and>
   extract_features (black_image [1, 1]) = Inr zero_features \<and>
   map_of (fst (classify_figure new_classifier (black_image [1, 1]))) ''type''
     = Some (UStr (0x1F4D0 # u '' Other Diagram'')) \<and>
   map_of (fst (classify_figure new_classifier (black_image [1, 1]))) ''confidence''
     = Some (Num 40) \<and>
   uniform_signals (black_image [1, 1, 3]) \<and>
   extract_features (black_image [1, 1, 3]) = Inr (zero_features\<lparr>color_diversity := 1\<rparr>) \<and>
   map_of (fst (classify_figure new_classifier (black_image [1, 1, 3]))) ''type''
     = Some (UStr (0x1F4F7 # u '' Photograph'')) \<and>
   map_of (fst (classify_figure new_classifier (black_image [1, 1, 3]))) ''confidence''
     = Some (Num 60) \<and>
   uniform_signals (white_image 5 5 [3]) \<and>
   extract_features (white_image 5 5 [3])
     = Inr (zero_features\<lparr>brightness := 255, color_diversity := 1 / 25,
                          rectangle_ratio := 16 / 25\<rparr>) \<and>
   map_of (fst (classify_figure new_classifier (white_image 5 5 [3]))) ''type''
     = Some (UStr (0x1F4CA # u '' Bar Chart'')) \<and>
   map_of (fst (classify_figure new_classifier (white_image 5 5 [3]))) ''confidence''
     = Some (Num 70) \<and>
   uniform_signals (white_image 24 24 [3]) \<and>
   extract_features (white_image 24 24 [3])
     = Inr (zero_features\<lparr>brightness := 255, color_diversity := 1 / 576,
                          text_ratio := 529 / 576, rectangle_ratio := 529 / 576\<rparr>) \<and>
   map_of (fst (classify_figure new_classifier (white_image 24 24 [3]))) ''type''
     = Some (UStr (0x1F4CB # u '' Table'')) \<and>
   map_of (fst (classify_figure new_classifier (white_image 24 24 [3]))) ''confidence''
     = Some (Num 60)"
proof -
  let ?raising = "(black_image [1, 1])\<lparr>canny_edges := Inl (ExternalError ''cv2.error'')\<rparr>"
  let ?bars = "zero_features\<lparr>brightness := 255, color_diversity := 1 / 25,
                              rectangle_ratio := 16 / 25\<rparr>"
  let ?cells = "zero_features\<lparr>brightness := 255, color_diversity := 1 / 576,
                               text_ratio := 529 / 576, rectangle_ratio := 529 / 576\<rparr>"
  have raised: "extract_features ?raising = Inl (ExternalError ''cv2.error'')"
    by (simp add: extract_defs black_image_def)
  have raising_shape: "shape ?raising = [1, 1]"
    by (simp add: black_image_def)
  have black: "shape (black_image s) = s" "unique_colors (black_image s) = 1"
    "corrcoef_h (black_image s) = Inr None" "corrcoef_v (black_image s) = Inr None"
    "uniform_signals (black_image s)" for s
    by (simp_all add: black_image_def uniform_signals_def)
  have white: "shape (white_image a b cs) = a # b # cs"
    "unique_colors (white_image a b cs) = 1" "uniform_signals (white_image a b cs)"
    for a b cs
    by (simp_all add: white_image_def black_image_def uniform_signals_def)
  have gray1: "extract_features (black_image [1, 1]) = Inr zero_features"
    by (simp add: extract_defs black_image_def zero_features_def)
  have color1:
    "extract_features (black_image [1, 1, 3]) = Inr (zero_features\<lparr>color_diversity := 1\<rparr>)"
    by (simp add: extract_defs black_image_def zero_features_def)
  have white5: "extract_features (white_image 5 5 [3]) = Inr ?bars"
    by (simp add: extract_defs white_image_def black_image_def zero_features_def)
  have white24: "extract_features (white_image 24 24 [3]) = Inr ?cells"
    by (simp add: extract_defs white_image_def black_image_def zero_features_def)
  have ratios: "rectangle_ratio ?bars = 16 / 25" "text_ratio ?bars = 0"
    "rectangle_ratio ?cells = 529 / 576" "text_ratio ?cells = 529 / 576"
    "color_diversity (zero_features\<lparr>color_diversity := 1\<rparr>) = 1"
    "rectangle_ratio (zero_features\<lparr>color_diversity := 1\<rparr>) = 0"
    "text_ratio (zero_features\<lparr>color_diversity := 1\<rparr>) = 0"
    "rectangle_ratio zero_features = 0" "text_ratio zero_features = 0"
    "color_diversity zero_features = 0"
    by (simp_all add: zero_features_def)
  note error_path =
    degenerate_image_classification [of ?raising 1 1 3 new_classifier zero_features]
  note gray_pixel =
    degenerate_image_classification [of "black_image [1, 1]" 1 1 3 new_classifier zero_features]
  note color_pixel =
    degenerate_image_classification
      [of "black_image [1, 1, 3]" 1 1 3 new_classifier "zero_features\<lparr>color_diversity := 1\<rparr>"]
  note white_small =
    degenerate_image_classification [of "white_image 5 5 [3]" 5 5 3 new_classifier ?bars]
  note white_large =
    degenerate_image_classification [of "white_image 24 24 [3]" 24 24 3 new_classifier ?cells]
  from error_path raised raising_shape
  have p1: "library_raises ?raising (ExternalError ''cv2.error'') \<and>
      map_of (fst (classify_figure new_classifier ?raising)) ''confidence'' = Some (Num 30)"
    by simp
  from gray_pixel black
  have p2: "calculate_symmetry (black_image [1, 1]) 0 = Inr 0 \<and>
      calculate_symmetry (black_image [1, 1]) 1 = Inr 0"
    by simp
  from gray_pixel black gray1 ratios
  have p3: "map_of (fst (classify_figure new_classifier (black_image [1, 1]))) ''type''
        = Some (UStr (map_to_label ''diagram'')) \<and>
      map_of (fst (classify_figure new_classifier (black_image [1, 1]))) ''confidence''
        = Some (Num 40)"
    by simp
  from color_pixel black color1 ratios
  have p4: "map_of (fst (classify_figure new_classifier (black_image [1, 1, 3]))) ''type''
        = Some (UStr (map_to_label ''photograph'')) \<and>
      map_of (fst (classify_figure new_classifier (black_image [1, 1, 3]))) ''confidence''
        = Some (Num 60)"
    by simp
  from white_small white white5 ratios
  have p5: "map_of (fst (classify_figure new_classifier (white_image 5 5 [3]))) ''type''
        = Some (UStr (map_to_label ''bar_chart'')) \<and>
      map_of (fst (classify_figure new_classifier (white_image 5 5 [3]))) ''confidence''
        = Some (Num 70)"
    by simp
  from white_large white white24 ratios
  have p6: "map_of (fst (classify_figure new_classifier (white_image 24 24 [3]))) ''type''
        = Some (UStr (map_to_label ''table'')) \<and>
      map_of (fst (classify_figure new_classifier (white_image 24 24 [3]))) ''confidence''
        = Some (Num 60)"
    by simp
  have labels: "map_to_label ''diagram'' = 0x1F4D0 # u '' Other Diagram''"
    "map_to_label ''photograph'' = 0x1F4F7 # u '' Photograph''"
    "map_to_label ''bar_chart'' = 0x1F4CA # u '' Bar Chart''"
    "map_to_label ''table'' = 0x1F4CB # u '' Table''"
    by (simp_all add: map_to_label_def dict_get_def)
  from p1 p2 p3 p4 p5 p6 raised gray1 color1 white5 white24 black(5) white(3)
  show ?thesis
    unfolding labels by blast
qed

text \<open>
  Three images of one color that are not classified diagram, and on which nothing
  raises. The black 1 by 1 color image has color diversity 1: rule 6 answers photograph
  with confidence 0.6. On the white 5 by 5 color image the border contour covers 16 of
  the 25 pixels and is too narrow to count as text: rule 2 answers bar\_chart with 0.7.
  On the white 24 by 24 color image the border contour covers 529 of the 576 pixels
  and is wide enough to count as text: rule 4 answers table with 0.6.
\<close>

theorem uniform_image_counterexample:
  "fst (classify_figure new_classifier (black_image [1, 1, 3])) =
     [(''type'', UStr (0x1F4F7 # u '' Photograph'')),
      (''confidence'', Num 60),
      (''description'', Str ''High color and texture variation, likely image capture.''),
      (''reasoning'', Str ''Rule-based decision based on visual features: photograph'')] \<and>
   confidence_score (snd (classify_figure new_classifier (black_image [1, 1, 3]))) = 0.6 \<and>
   fst (classify_figure new_classifier (white_image 5 5 [3])) =
     [(''type'', UStr (0x1F4CA # u '' Bar Chart'')),
      (''confidence'', Num 70),
      (''description'', Str ''Vertical or horizontal bars used to compare values.''),
      (''reasoning'', Str ''Rule-based decision based on visual features: bar_chart'')] \<and>
   confidence_score (snd (classify_figure new_classifier (white_image 5 5 [3]))) = 0.7 \<and>
   fst (classify_figure new_classifier (white_image 24 24 [3])) =
     [(''type'', UStr (0x1F4CB # u '' Table'')),
      (''confidence'', Num 60),
      (''description'', Str ''Grid of cells with rows and columns of text.''),
      (''reasoning'', Str ''Rule-based decision based on visual features: table'')] \<and>
   confidence_score (snd (classify_figure new_classifier (white_image 24 24 [3]))) = 0.6"
  by (simp add: classify_figure_def extract_defs rule_defs white_image_def black_image_def
        new_classifier_def rule_result_def map_to_label_def dict_get_def
        get_brief_description_def py_round1_def round_half_even_def)

section \<open>Properties of the caption-keyword classifier\<close>

subsection \<open>Scores, bonuses and the maximum\<close>

lemma add_bonus_step_keys:
  "map fst (case map_of d t of Some v \<Rightarrow> AList.update t (v + n) d | None \<Rightarrow> d) = map fst d"
proof (cases "map_of d t")
  case None
  then show ?thesis by simp
next
  case (Some v)
  then have "(t, v) \<in> set d" by (rule map_of_SomeD)
  then have "t \<in> set (map fst d)" by force
  with Some show ?thesis by (simp add: update_keys)
qed

lemma add_bonus_keys: "map fst (add_bonus ts n d) = map fst d"
  unfolding add_bonus_def
  by (induction ts arbitrary: d) (simp_all add: add_bonus_step_keys)

lemma update_values_positive:
  "list_all (\<lambda>(k, v). 0 < v) d \<Longrightarrow> (0::int) < x \<Longrightarrow>
   list_all (\<lambda>(k, v). 0 < v) (AList.update t x d)"
  by (induction d) auto

lemma add_bonus_step_positive:
  assumes pos: "list_all (\<lambda>(k, v). 0 < v) d" and n: "(0::int) \<le> n"
  shows "list_all (\<lambda>(k, v). 0 < v)
     (case map_of d t of Some v \<Rightarrow> AList.update t (v + n) d | None \<Rightarrow> d)"
proof (cases "map_of d t")
  case None
  with pos show ?thesis by simp
next
  case (Some v)
  then have "(t, v) \<in> set d" by (rule map_of_SomeD)
  with pos have "0 < v" by (auto simp: list_all_iff)
  with n have "0 < v + n" by simp
  with pos Some show ?thesis by (simp add: update_values_positive)
qed

lemma add_bonus_positive:
  "list_all (\<lambda>(k, v). 0 < v) d \<Longrightarrow> (0::int) \<le> n \<Longrightarrow>
   list_all (\<lambda>(k, v). 0 < v) (add_bonus ts n d)"
  unfolding add_bonus_def
  by (induction ts arbitrary: d) (simp_all add: add_bonus_step_positive)

text \<open>
  Whatever the image, the reweighting returns the scores with some of the bonuses added:
  any property of score dictionaries that every bonus keeps is kept by the whole.
\<close>

lemma enhance_preserves:
  assumes scores: "P scores"
    and bonus: "\<And>ts n d. 0 \<le> n \<Longrightarrow> P d \<Longrightarrow> P (add_bonus ts n d)"
  shows "P (enhance_classification_with_analysis img scores)"
proof -
  have one: "P (if b then add_bonus ts n d else d)" if "0 \<le> n" "P d" for b ts n d
    using that bonus by (cases b) simp_all
  have two: "P (if b then add_bonus ts n d else if b' then add_bonus ts' n' d else d)"
    if "0 \<le> n" "0 \<le> n'" "P d" for b b' ts ts' n n' d
    using that bonus by (cases b; cases b') simp_all
  have chain: "P (if b1 then add_bonus ts1 8
                      (if b2 then add_bonus ts2 5 scores else scores)
                  else if b2 then add_bonus ts2 5 scores else scores)" for b1 b2 ts1 ts2
    using one [of 8 "if b2 then add_bonus ts2 5 scores else scores" b1 ts1]
          one [of 5 scores b2 ts2] scores
    by simp
  show ?thesis
  proof (cases "length (shape img) = 3")
    case True
    then show ?thesis
      unfolding enhance_classification_with_analysis_def bind_exn_def Let_def
      by (auto split: sum.splits prod.splits split del: if_split
            intro!: two chain scores)
  next
    case False
    then show ?thesis
      unfolding enhance_classification_with_analysis_def bind_exn_def Let_def
      by (auto split: sum.splits prod.splits split del: if_split
            intro!: chain scores)
  qed
qed

lemma enhance_keys:
  "map fst (enhance_classification_with_analysis img scores) = map fst scores"
  by (rule enhance_preserves [where P = "\<lambda>d. map fst d = map fst scores"])
     (simp_all add: add_bonus_keys)

lemma enhance_positive:
  "list_all (\<lambda>(k, v). 0 < v) scores \<Longrightarrow>
   list_all (\<lambda>(k, v). 0 < v) (enhance_classification_with_analysis img scores)"
  by (rule enhance_preserves) (simp_all add: add_bonus_positive)

lemma enhance_empty: "enhance_classification_with_analysis img [] = []"
  using enhance_keys [of img "[]"] by simp

lemma positive_scores_positive: "list_all (\<lambda>(k, v). 0 < v) (positive_scores scores)"
  by (auto simp: positive_scores_def list_all_iff)

lemma positive_scores_keys: "set (map fst (positive_scores scores)) \<subseteq> set (map fst scores)"
  by (auto simp: positive_scores_def)

lemma keyword_scores_keys: "map fst (keyword_scores s) = map fst figure_categories"
  by (simp add: keyword_scores_def case_prod_unfold comp_def)

lemma max_by_value_mem: "max_by_value best items \<in> set (best # items)"
  by (induction best items rule: max_by_value.induct) auto

lemma max_by_value_ge_best: "snd best \<le> snd (max_by_value best items)"
proof (induction best items rule: max_by_value.induct)
  case (1 best)
  show ?case by simp
next
  case (2 best item items)
  then show ?case by (cases "snd best < snd item") (auto intro: order_trans less_imp_le)
qed

lemma max_by_value_ge: "x \<in> set items \<Longrightarrow> snd x \<le> snd (max_by_value best items)"
proof (induction best items rule: max_by_value.induct)
  case (1 best)
  then show ?case by simp
next
  case (2 best item items)
  show ?case
  proof (cases "x = item")
    case True
    have "snd item \<le> snd (if snd best < snd item then item else best)" by simp
    also have "\<dots> \<le> snd (max_by_value (if snd best < snd item then item else best) items)"
      by (rule max_by_value_ge_best)
    finally show ?thesis using True by simp
  next
    case False
    with "2.prems" have "x \<in> set items" by simp
    then show ?thesis using "2.IH" by simp
  qed
qed

subsection \<open>The local caption\<close>

lemma local_words_not_empty: "local_words m \<noteq> []"
  by (cases m) (simp add: local_words_def)

lemma local_words_each_not_empty: "w \<in> set (local_words m) \<Longrightarrow> w \<noteq> []"
  by (cases m) (auto simp: local_words_def split: if_splits option.splits)

lemma join_spaces_not_empty:
  "ws \<noteq> [] \<Longrightarrow> hd ws \<noteq> [] \<Longrightarrow> join_spaces ws \<noteq> []"
  by (induction ws rule: join_spaces.induct) simp_all

lemma analyze_image_locally_not_empty: "analyze_image_locally img \<noteq> []"
proof (cases "local_measurements img")
  case (Inl e)
  then show ?thesis by (simp add: analyze_image_locally_def)
next
  case (Inr m)
  have "hd (local_words m) \<in> set (local_words m)"
    by (simp add: local_words_not_empty)
  then have "hd (local_words m) \<noteq> []"
    by (rule local_words_each_not_empty)
  with Inr show ?thesis
    by (simp add: analyze_image_locally_def local_words_not_empty join_spaces_not_empty)
qed

lemma analyze_of_measurements:
  "local_measurements img = Inr m \<Longrightarrow> analyze_image_locally img = join_spaces (local_words m)"
  by (simp add: analyze_image_locally_def local_words_not_empty)

lemma local_words_bands:
  "local_words (aspect, diversity, bright, edges) =
     (if 1.5 < aspect then [''wide''] else if aspect < 0.7 then [''tall''] else [])
     @ (if 0.1 < diversity then [''colorful''] else if diversity < 0.01 then [''simple''] else [])
     @ (if 0.2 < edges then [''detailed diagram''] else if 0.1 < edges then [''chart'']
        else [''image''])
     @ (case bright of
          None \<Rightarrow> []
        | Some b \<Rightarrow> if 200 < b then [''bright''] else if b < 100 then [''dark''] else [])"
  by (simp only: local_words_def prod.case)

text \<open>
  C7. When the captioning call raises (a timeout and a network error are both
  exceptions of \<^verbatim>\<open>requests.post\<close>) or answers with a status other than 200, the
  description is the local caption; the same holds when saving the image raises. The
  local caption is never empty. On an array of \<open>h > 0\<close> rows and \<open>w\<close> columns it is the
  band words joined by spaces, in this order: "wide" for an aspect ratio \<open>w / h\<close> above
  1.5 and "tall" for one below 0.7; on a color array (three dimensions, \<open>w > 0\<close>)
  "colorful" for a color diversity \<open>unique_colors / (h * w)\<close> above 0.1 and "simple" for
  one below 0.01, then "detailed diagram" for an edge density above 0.2, "chart" for
  one above 0.1 and "image" otherwise, the edge density being the number of edge pixels
  over \<open>h * w\<close> and 0 when the edge detector raises; on any other array "simple" and
  "image"; last "bright" for a mean brightness above 200 and "dark" for one below 100,
  and no word for a brightness that is NaN. With fewer than two dimensions, no row, or
  a color array without a column, the caption is "visual content".
\<close>

theorem service_unavailable_local_caption:
  fixes img :: image and http :: "exn + response"
  shows
  "((\<exists>e. http = Inl e) \<or> (\<exists>resp. http = Inr resp \<and> status_code resp \<noteq> 200) \<or>
    (\<exists>e. png_save img = Inl e) \<longrightarrow>
      get_image_description img http = JStr (analyze_image_locally img)) \<and>
   analyze_image_locally img \<noteq> [] \<and>
   (\<forall>h w c. shape img = [h, w, c] \<and> 0 < h \<and> 0 < w \<longrightarrow>
      analyze_image_locally img =
        join_spaces
          ((if 1.5 < real w / real h then [''wide'']
            else if real w / real h < 0.7 then [''tall''] else []) @
           (if 0.1 < real (unique_colors img) / real (h * w) then [''colorful'']
            else if real (unique_colors img) / real (h * w) < 0.01 then [''simple''] else []) @
           (case mean_gray_canny img of
              Inl e \<Rightarrow> [''image'']
            | Inr n \<Rightarrow>
                if 0.2 < real n / real (h * w) then [''detailed diagram'']
                else if 0.1 < real n / real (h * w) then [''chart''] else [''image'']) @
           (case array_mean img of
              None \<Rightarrow> []
            | Some b \<Rightarrow> if 200 < b then [''bright''] else if b < 100 then [''dark''] else []))) \<and>
   (\<forall>h w rest. shape img = h # w # rest \<and> 0 < h \<and> length rest \<noteq> 1 \<longrightarrow>
      analyze_image_locally img =
        join_spaces
          ((if 1.5 < real w / real h then [''wide'']
            else if real w / real h < 0.7 then [''tall''] else []) @
           [''simple'', ''image''] @
           (case array_mean img of
              None \<Rightarrow> []
            | Some b \<Rightarrow> if 200 < b then [''bright''] else if b < 100 then [''dark''] else []))) \<and>
   (length (shape img) < 2 \<or> (\<exists>w rest. shape img = 0 # w # rest) \<or>
    (\<exists>h c. shape img = [h, 0, c]) \<longrightarrow>
      analyze_image_locally img = ''visual content'')"
proof (intro conjI impI allI)
  assume "(\<exists>e. http = Inl e) \<or> (\<exists>resp. http = Inr resp \<and> status_code resp \<noteq> 200) \<or>
    (\<exists>e. png_save img = Inl e)"
  then show "get_image_description img http = JStr (analyze_image_locally img)"
    by (cases "png_save img") (auto simp: get_image_description_def bind_exn_def)
next
  show "analyze_image_locally img \<noteq> []"
    by (rule analyze_image_locally_not_empty)
next
  fix h w c
  assume a: "shape img = [h, w, c] \<and> 0 < h \<and> 0 < w"
  then have m: "local_measurements img =
      Inr (real w / real h, real (unique_colors img) / real (h * w), array_mean img,
           real (simple_edge_detection img) / real (h * w))"
    by (simp add: local_measurements_def bind_exn_def py_div_def)
  have edges:
    "(if 0.2 < real (simple_edge_detection img) / real (h * w) then [''detailed diagram'']
      else if 0.1 < real (simple_edge_detection img) / real (h * w) then [''chart'']
      else [''image''])
     = (case mean_gray_canny img of
          Inl e \<Rightarrow> [''image'']
        | Inr n \<Rightarrow>
            if 0.2 < real n / real (h * w) then [''detailed diagram'']
            else if 0.1 < real n / real (h * w) then [''chart''] else [''image''])"
  proof (cases "mean_gray_canny img")
    case (Inl e)
    then show ?thesis by (simp add: simple_edge_detection_def)
  next
    case (Inr n)
    then show ?thesis by (simp only: simple_edge_detection_def sum.case)
  qed
  show "analyze_image_locally img =
        join_spaces
          ((if 1.5 < real w / real h then [''wide'']
            else if real w / real h < 0.7 then [''tall''] else []) @
           (if 0.1 < real (unique_colors img) / real (h * w) then [''colorful'']
            else if real (unique_colors img) / real (h * w) < 0.01 then [''simple''] else []) @
           (case mean_gray_canny img of
              Inl e \<Rightarrow> [''image'']
            | Inr n \<Rightarrow>
                if 0.2 < real n / real (h * w) then [''detailed diagram'']
                else if 0.1 < real n / real (h * w) then [''chart''] else [''image'']) @
           (case array_mean img of
              None \<Rightarrow> []
            | Some b \<Rightarrow> if 200 < b then [''bright''] else if b < 100 then [''dark''] else []))"
    unfolding analyze_of_measurements [OF m] local_words_bands edges
    by (rule refl)
next
  fix h w rest
  assume a: "shape img = h # w # rest \<and> 0 < h \<and> length rest \<noteq> 1"
  then have m: "local_measurements img = Inr (real w / real h, 0, array_mean img, 0)"
    by (simp add: local_measurements_def bind_exn_def py_div_def)
  have flat:
    "(if 0.1 < (0::real) then [''colorful''] else if (0::real) < 0.01 then [''simple''] else [])
       @ (if 0.2 < (0::real) then [''detailed diagram'']
          else if 0.1 < (0::real) then [''chart''] else [''image''])
       @ ws
     = [''simple'', ''image''] @ ws" for ws :: "string list"
    by simp
  show "analyze_image_locally img =
        join_spaces
          ((if 1.5 < real w / real h then [''wide'']
            else if real w / real h < 0.7 then [''tall''] else []) @
           [''simple'', ''image''] @
           (case array_mean img of
              None \<Rightarrow> []
            | Some b \<Rightarrow> if 200 < b then [''bright''] else if b < 100 then [''dark''] else []))"
    unfolding analyze_of_measurements [OF m] local_words_bands flat
    by (rule refl)
next
  assume "length (shape img) < 2 \<or> (\<exists>w rest. shape img = 0 # w # rest) \<or>
    (\<exists>h c. shape img = [h, 0, c])"
  then consider (short) "length (shape img) < 2"
    | (flat) w rest where "shape img = 0 # w # rest"
    | (thin) h c where "shape img = [h, 0, c]"
    by blast
  then have "\<exists>e. local_measurements img = Inl e"
  proof cases
    case short
    then have "shape img = [] \<or> (\<exists>a. shape img = [a])"
      by (cases "shape img") (auto simp: length_Suc_conv)
    then show ?thesis
      by (auto simp: local_measurements_def bind_exn_def)
  next
    case flat
    then show ?thesis
      by (simp add: local_measurements_def bind_exn_def py_div_def)
  next
    case thin
    then show ?thesis
      by (simp add: local_measurements_def bind_exn_def py_div_def)
  qed
  then show "analyze_image_locally img = ''visual content''"
    by (auto simp: analyze_image_locally_def)
qed

text \<open>
  The theorem at a timeout and at a 503 answer on a black 1 by 1 color image (the
  caption is "colorful image dark" both times), and the bands on three more arrays: a
  bright color image of 10 rows and 5 columns with 50 colors and 15 edge pixels, a white
  image of one channel with 10 rows and 16 columns, and a color array without a row.
\<close>

theorem service_unavailable_local_caption_witness:
  "get_image_description (black_image [1, 1, 3]) (Inl (ExternalError ''Read timed out''))
     = JStr ''colorful image dark'' \<and>
   get_image_description (black_image [1, 1, 3])
       (Inr \<lparr>status_code = 503, json_body = Inl (ExternalError ''Expecting value'')\<rparr>)
     = JStr ''colorful image dark'' \<and>
   analyze_image_locally (black_image [1, 1, 3]) = ''colorful image dark'' \<and>
   ''colorful image dark'' \<noteq> [] \<and>
   analyze_image_locally
       ((black_image [10, 5, 3])
          \<lparr>unique_colors := 50, array_mean := Some 230, mean_gray_canny := Inr 15\<rparr>)
     = ''tall colorful detailed diagram bright'' \<and>
   analyze_image_locally (white_image 10 16 []) = ''wide simple image bright'' \<and>
   analyze_image_locally (black_image [0, 5, 3]) = ''visual content''"
proof -
  let ?timeout = "Inl (ExternalError ''Read timed out'') :: exn + response"
  let ?unavailable =
    "Inr \<lparr>status_code = 503, json_body = Inl (ExternalError ''Expecting value'')\<rparr>
       :: exn + response"
  let ?busy = "(black_image [10, 5, 3])
                 \<lparr>unique_colors := 50, array_mean := Some 230, mean_gray_canny := Inr 15\<rparr>"
  note at_timeout = service_unavailable_local_caption [of ?timeout "black_image [1, 1, 3]"]
  note at_503 = service_unavailable_local_caption [of ?unavailable "black_image [1, 1, 3]"]
  note busy = service_unavailable_local_caption [of ?timeout ?busy]
  note white = service_unavailable_local_caption [of ?timeout "white_image 10 16 []"]
  note no_row = service_unavailable_local_caption [of ?timeout "black_image [0, 5, 3]"]
  have pixel: "shape (black_image s) = s"
    "unique_colors (black_image s) = 1"
    "mean_gray_canny (black_image s) = Inr 0"
    "array_mean (black_image s) = Some 0" for s
    by (simp_all add: black_image_def)
  from at_timeout
  have "shape (black_image [1, 1, 3]) = [1, 1, 3] \<and> (0::nat) < 1 \<and> (0::nat) < 1 \<longrightarrow>
      analyze_image_locally (black_image [1, 1, 3]) =
        join_spaces
          ((if 1.5 < real 1 / real 1 then [''wide'']
            else if real 1 / real 1 < 0.7 then [''tall''] else []) @
           (if 0.1 < real (unique_colors (black_image [1, 1, 3])) / real (1 * 1)
            then [''colorful'']
            else if real (unique_colors (black_image [1, 1, 3])) / real (1 * 1) < 0.01
            then [''simple''] else []) @
           (case mean_gray_canny (black_image [1, 1, 3]) of
              Inl e \<Rightarrow> [''image'']
            | Inr n \<Rightarrow>
                if 0.2 < real n / real (1 * 1) then [''detailed diagram'']
                else if 0.1 < real n / real (1 * 1) then [''chart''] else [''image'']) @
           (case array_mean (black_image [1, 1, 3]) of
              None \<Rightarrow> []
            | Some b \<Rightarrow> if 200 < b then [''bright''] else if b < 100 then [''dark''] else []))"
    by blast
  then have caption: "analyze_image_locally (black_image [1, 1, 3]) = ''colorful image dark''"
    by (simp add: pixel)
  from at_timeout have "get_image_description (black_image [1, 1, 3]) ?timeout
      = JStr (analyze_image_locally (black_image [1, 1, 3]))"
    by blast
  then have p1: "get_image_description (black_image [1, 1, 3]) ?timeout
      = JStr ''colorful image dark''"
    by (simp only: caption)
  have "status_code \<lparr>status_code = 503, json_body = Inl (ExternalError ''Expecting value'')\<rparr>
      \<noteq> 200"
    by simp
  with at_503 have "get_image_description (black_image [1, 1, 3]) ?unavailable
      = JStr (analyze_image_locally (black_image [1, 1, 3]))"
    by blast
  then have p2: "get_image_description (black_image [1, 1, 3]) ?unavailable
      = JStr ''colorful image dark''"
    by (simp only: caption)
  from at_timeout have "analyze_image_locally (black_image [1, 1, 3]) \<noteq> []"
    by blast
  then have p3: "''colorful image dark'' \<noteq> []"
    unfolding caption .
  have busy_obs:
    "shape ((black_image s)
              \<lparr>unique_colors := 50, array_mean := Some 230, mean_gray_canny := Inr 15\<rparr>) = s"
    "unique_colors ?busy = 50" "mean_gray_canny ?busy = Inr 15" "array_mean ?busy = Some 230"
    for s
    by (simp_all add: black_image_def)
  from busy
  have "shape ?busy = [10, 5, 3] \<and> (0::nat) < 10 \<and> (0::nat) < 5 \<longrightarrow>
      analyze_image_locally ?busy =
        join_spaces
          ((if 1.5 < real 5 / real 10 then [''wide'']
            else if real 5 / real 10 < 0.7 then [''tall''] else []) @
           (if 0.1 < real (unique_colors ?busy) / real (10 * 5) then [''colorful'']
            else if real (unique_colors ?busy) / real (10 * 5) < 0.01
            then [''simple''] else []) @
           (case mean_gray_canny ?busy of
              Inl e \<Rightarrow> [''image'']
            | Inr n \<Rightarrow>
                if 0.2 < real n / real (10 * 5) then [''detailed diagram'']
                else if 0.1 < real n / real (10 * 5) then [''chart''] else [''image'']) @
           (case array_mean ?busy of
              None \<Rightarrow> []
            | Some b \<Rightarrow> if 200 < b then [''bright''] else if b < 100 then [''dark''] else []))"
    by blast
  then have p4: "analyze_image_locally ?busy = ''tall colorful detailed diagram bright''"
    by (simp add: busy_obs)
  have white_obs: "shape (white_image a b cs) = a # b # cs"
    "array_mean (white_image a b cs) = Some 255" for a b cs
    by (simp_all add: white_image_def black_image_def)
  from white
  have "shape (white_image 10 16 []) = 10 # 16 # [] \<and> (0::nat) < 10 \<and>
        length ([] :: nat list) \<noteq> 1 \<longrightarrow>
      analyze_image_locally (white_image 10 16 []) =
        join_spaces
          ((if 1.5 < real 16 / real 10 then [''wide'']
            else if real 16 / real 10 < 0.7 then [''tall''] else []) @
           [''simple'', ''image''] @
           (case array_mean (white_image 10 16 []) of
              None \<Rightarrow> []
            | Some b \<Rightarrow> if 200 < b then [''bright''] else if b < 100 then [''dark''] else []))"
    by blast
  then have p5: "analyze_image_locally (white_image 10 16 []) = ''wide simple image bright''"
    by (simp add: white_obs)
  have "\<exists>w rest. shape (black_image [0, 5, 3]) = 0 # w # rest"
    by (simp add: black_image_def)
  with no_row have p6: "analyze_image_locally (black_image [0, 5, 3]) = ''visual content''"
    by blast
  from p1 p2 caption p3 p4 p5 p6 show ?thesis
    by blast
qed

subsection \<open>An empty caption from the service\<close>

lemma empty_caption_scores: "list_all (\<lambda>(k, v). v = 0) (keyword_scores (py_lower []))"
  by (simp add: keyword_scores_def figure_categories_def py_lower_def)

lemma empty_caption_no_positive: "positive_scores (keyword_scores (py_lower [])) = []"
  by (simp add: table_defs)

text \<open>
  C10. When the image is sent, the service answers 200 with a list whose first element
  is an object, and \<^verbatim>\<open>generated_text\<close> is missing from it or is the empty string, the
  description is the empty string and not the local caption; every keyword score on
  it is zero, and the result is the one of \<^verbatim>\<open>_classify_by_visual_analysis\<close>.
\<close>

theorem empty_generated_text_goes_visual:
  fixes img :: image and self :: classifier and resp :: response
  shows
  "png_save img = Inr () \<and> status_code resp = 200 \<and>
   json_body resp = Inr (JList (JObj d # rest)) \<and>
   (map_of d ''generated_text'' = None \<or> map_of d ''generated_text'' = Some (JStr [])) \<longrightarrow>
     get_image_description img (Inr resp) = JStr [] \<and>
     get_image_description img (Inr resp) \<noteq> JStr (analyze_image_locally img) \<and>
     list_all (\<lambda>(k, v). v = 0) (keyword_scores (py_lower [])) \<and>
     classify_from_description self (get_image_description img (Inr resp)) img =
       (Inr (fst (classify_by_visual_analysis self img [])),
        snd (classify_by_visual_analysis self img []))"
proof (intro impI)
  assume a: "png_save img = Inr () \<and> status_code resp = 200 \<and>
   json_body resp = Inr (JList (JObj d # rest)) \<and>
   (map_of d ''generated_text'' = None \<or> map_of d ''generated_text'' = Some (JStr []))"
  then have description: "get_image_description img (Inr resp) = JStr []"
    by (auto simp: get_image_description_def bind_exn_def dict_get_def)
  have "classify_from_description self (JStr []) img =
       (Inr (fst (classify_by_visual_analysis self img [])),
        snd (classify_by_visual_analysis self img []))"
    by (simp add: classify_from_description_def empty_caption_no_positive enhance_empty
          case_prod_unfold)
  with description show "get_image_description img (Inr resp) = JStr [] \<and>
     get_image_description img (Inr resp) \<noteq> JStr (analyze_image_locally img) \<and>
     list_all (\<lambda>(k, v). v = 0) (keyword_scores (py_lower [])) \<and>
     classify_from_description self (get_image_description img (Inr resp)) img =
       (Inr (fst (classify_by_visual_analysis self img [])),
        snd (classify_by_visual_analysis self img []))"
    using analyze_image_locally_not_empty [of img] empty_caption_scores by auto
qed

theorem empty_generated_text_goes_visual_witness:
  "get_image_description (black_image [1, 1, 3]) (caption_response (JStr [])) = JStr [] \<and>
   get_image_description (black_image [1, 1, 3])
     (Inr \<lparr>status_code = 200, json_body = Inr (JList [JObj []])\<rparr>) = JStr [] \<and>
   map_of (fst (classify_by_visual_analysis new_classifier (black_image [1, 1, 3]) []))
     ''classification'' = Some (Str ''photograph'') \<and>
   fst (classify_from_description new_classifier
          (get_image_description (black_image [1, 1, 3]) (caption_response (JStr [])))
          (black_image [1, 1, 3]))
     = Inr (fst (classify_by_visual_analysis new_classifier (black_image [1, 1, 3]) []))"
proof -
  have visual: "map_of (fst (classify_by_visual_analysis new_classifier (black_image [1, 1, 3]) []))
     ''classification'' = Some (Str ''photograph'')"
    by (simp add: free_defs black_image_def bind_exn_def py_div_def)
  have saved: "png_save (black_image [1, 1, 3]) = Inr ()"
    by (simp add: black_image_def)
  from empty_generated_text_goes_visual
         [of "black_image [1, 1, 3]"
             "\<lparr>status_code = 200, json_body = Inr (JList [JObj [(''generated_text'', JStr [])]])\<rparr>"
             "[(''generated_text'', JStr [])]" "[]" new_classifier]
       empty_generated_text_goes_visual
         [of "black_image [1, 1, 3]"
             "\<lparr>status_code = 200, json_body = Inr (JList [JObj []])\<rparr>"
             "[]" "[]" new_classifier]
       visual saved
  show ?thesis by (auto simp: caption_response_def)
qed

subsection \<open>The result without a type\<close>

text \<open>
  C8 at the failing input: the service answers 200 with \<^verbatim>\<open>[{"generated_text": null}]\<close>.
  \<^verbatim>\<open>description.lower()\<close> raises \<^verbatim>\<open>AttributeError\<close>, the \<^verbatim>\<open>except\<close> branch of
  \<^verbatim>\<open>classify_figure\<close> returns the fallback dictionary, and that dictionary has no
  \<^verbatim>\<open>type\<close> key.
\<close>

theorem free_classify_figure_except_path_has_no_type:
  "get_image_description (black_image [1, 1, 3]) (caption_response JNull) = JNull \<and>
   fst (classify_from_description new_classifier JNull (black_image [1, 1, 3])) =
     Inl (AttributeError
            ([CHR 0x27] @ ''NoneType'' @ [CHR 0x27] @ '' object has no attribute ''
             @ [CHR 0x27] @ ''lower'' @ [CHR 0x27])) \<and>
   fst (free_classify_figure new_classifier (black_image [1, 1, 3]) (caption_response JNull)) =
     [(''classification'', Str ''unknown''),
      (''confidence'', Num 0.3),
      (''description'', Str ''Could not classify figure reliably''),
      (''details'', Dict [(''visual_elements'', StrList [''visual content'']),
                          (''analysis_method'', Str ''Fallback classification'')]),
      (''reasoning'', Str ''No meaningful description or features available'')] \<and>
   map_of (fst (free_classify_figure new_classifier (black_image [1, 1, 3])
                  (caption_response JNull))) ''type'' = None"
  by (simp add: free_defs black_image_def bind_exn_def caption_response_def dict_get_def
        no_attribute_def)

subsection \<open>What the caption-keyword classifier can return\<close>

lemma visual_choice_range:
  "case visual_choice img of
     Inl e \<Rightarrow> True
   | Inr (c, k, ar) \<Rightarrow>
       (c, k) \<in> set [(''photograph'', 0.6), (''timeline'', 0.5), (''chart_other'', 0.5),
                     (''diagram_other'', 0.4)]"
  unfolding visual_choice_def bind_exn_def
  by (simp split: sum.splits prod.splits)

lemma visual_analysis_summary:
  "\<exists>c k. map_of (fst (classify_by_visual_analysis self img d)) ''classification''
            = Some (Str c) \<and>
         map_of (fst (classify_by_visual_analysis self img d)) ''confidence'' = Some (Num k) \<and>
         confidence_score (snd (classify_by_visual_analysis self img d)) = k \<and>
         (c, k) \<in> set [(''photograph'', 0.6), (''timeline'', 0.5), (''chart_other'', 0.5),
                       (''diagram_other'', 0.4), (''unknown'', 0.3)]"
proof (cases "visual_choice img")
  case (Inl e)
  then show ?thesis
    by (intro exI [of _ "''unknown''"] exI [of _ "0.3"])
       (simp add: classify_by_visual_analysis_def fallback_classification_def)
next
  case (Inr r)
  obtain c k ar where r: "r = (c, k, ar)" by (cases r)
  with Inr visual_choice_range [of img]
  have "(c, k) \<in> set [(''photograph'', 0.6), (''timeline'', 0.5), (''chart_other'', 0.5),
                     (''diagram_other'', 0.4)]"
    by simp
  with Inr r show ?thesis
    by (auto simp: classify_by_visual_analysis_def)
qed

lemma visual_categories_are_keys:
  "set [''photograph'', ''timeline'', ''chart_other'', ''diagram_other'', ''unknown'']
     \<subseteq> set (map fst figure_categories)"
  by (simp add: figure_categories_def)

text \<open>
  Every result of \<^verbatim>\<open>_classify_from_description\<close> on a string carries a category that
  is a key of the keyword table and a confidence between 0.3 and 0.95, which is also
  what the object keeps in \<^verbatim>\<open>confidence_score\<close>.
\<close>

lemma classify_from_description_summary:
  "\<exists>r c k. fst (classify_from_description self (JStr d) img) = Inr r \<and>
     map_of r ''classification'' = Some (Str c) \<and>
     map_of r ''confidence'' = Some (Num k) \<and>
     confidence_score (snd (classify_from_description self (JStr d) img)) = k \<and>
     c \<in> set (map fst figure_categories) \<and> 0.3 \<le> k \<and> k \<le> 0.95"
proof (cases "enhance_classification_with_analysis img
                (positive_scores (keyword_scores (py_lower d)))")
  case Nil
  from visual_analysis_summary [of self img d] obtain c k where
    ck: "map_of (fst (classify_by_visual_analysis self img d)) ''classification'' = Some (Str c)"
      "map_of (fst (classify_by_visual_analysis self img d)) ''confidence'' = Some (Num k)"
      "confidence_score (snd (classify_by_visual_analysis self img d)) = k"
      "(c, k) \<in> set [(''photograph'', 0.6), (''timeline'', 0.5), (''chart_other'', 0.5),
                     (''diagram_other'', 0.4), (''unknown'', 0.3)]"
    by blast
  from ck(4) have "c \<in> set [''photograph'', ''timeline'', ''chart_other'', ''diagram_other'',
                            ''unknown'']"
    by auto
  with visual_categories_are_keys have key: "c \<in> set (map fst figure_categories)"
    by blast
  from ck(4) have range: "0.3 \<le> k \<and> k \<le> 0.95" by auto
  from Nil ck(1,2,3) key range show ?thesis
    by (simp add: classify_from_description_def case_prod_unfold)
next
  case (Cons item items)
  define best where "best = max_by_value item items"
  define enhanced where "enhanced = enhance_classification_with_analysis img
                (positive_scores (keyword_scores (py_lower d)))"
  have mem: "best \<in> set enhanced"
    unfolding best_def enhanced_def Cons by (rule max_by_value_mem)
  have "list_all (\<lambda>(k, v). 0 < v) enhanced"
    unfolding enhanced_def by (intro enhance_positive positive_scores_positive)
  with mem have pos: "0 < snd best"
    by (auto simp: list_all_iff)
  have "fst best \<in> set (map fst enhanced)"
    using mem by simp
  then have "fst best \<in> set (map fst (positive_scores (keyword_scores (py_lower d))))"
    unfolding enhanced_def by (simp only: enhance_keys)
  moreover have "set (map fst (positive_scores (keyword_scores (py_lower d))))
                   \<subseteq> set (map fst figure_categories)"
    using positive_scores_keys [of "keyword_scores (py_lower d)"]
    by (simp only: keyword_scores_keys)
  ultimately have key: "fst best \<in> set (map fst figure_categories)"
    by blast
  define k where "k = min 0.95 (0.5 + real_of_int (snd best) / 20)"
  from pos have range: "0.3 \<le> k \<and> k \<le> 0.95"
    unfolding k_def by (auto simp: min_def)
  have result: "classify_from_description self (JStr d) img =
      (Inr [(''classification'', Str (fst best)),
            (''confidence'', Num k),
            (''description'', Str (generate_description (fst best) d)),
            (''details'',
               Dict [(''visual_elements'', StrList (extract_visual_elements d (fst best))),
                     (''analysis_method'', Str ''Free local + HuggingFace analysis'')]),
            (''reasoning'',
               Str (''Classified as '' @ fst best
                    @ '' using description '' @ [CHR 0x27] @ d @ [CHR 0x27]))],
       self\<lparr>confidence_score := k\<rparr>)"
    unfolding k_def best_def using Cons
    by (simp add: classify_from_description_def Let_def)
  from key range show ?thesis
    unfolding result by simp
qed

lemma free_classify_figure_summary:
  "\<exists>c k. map_of (fst (free_classify_figure self img http)) ''classification'' = Some (Str c) \<and>
         map_of (fst (free_classify_figure self img http)) ''confidence'' = Some (Num k) \<and>
         confidence_score (snd (free_classify_figure self img http)) = k \<and>
         c \<in> set (map fst figure_categories) \<and> 0.3 \<le> k \<and> k \<le> 0.95"
proof (cases "\<exists>d. get_image_description img http = JStr d")
  case True
  then obtain d where d: "get_image_description img http = JStr d" by blast
  from classify_from_description_summary [of self d img] obtain r c k where
    r: "fst (classify_from_description self (JStr d) img) = Inr r"
      "map_of r ''classification'' = Some (Str c)"
      "map_of r ''confidence'' = Some (Num k)"
      "confidence_score (snd (classify_from_description self (JStr d) img)) = k"
      "c \<in> set (map fst figure_categories)" "0.3 \<le> k \<and> k \<le> 0.95"
    by blast
  obtain s where s: "classify_from_description self (JStr d) img = (Inr r, s)"
    using r(1) by (cases "classify_from_description self (JStr d) img") simp
  with r(4) have score: "confidence_score s = k" by simp
  have result: "free_classify_figure self img http =
      (AList.update ''classification'' (Str c)
         (AList.update ''type'' (UStr (rendered_type c)) r), s)"
    using d s r(2) by (simp add: free_classify_figure_def dict_get_def)
  show ?thesis
    unfolding result using r(2,3,5,6) score
    by (simp add: update_conv')
next
  case False
  then have "fst (classify_from_description self (get_image_description img http) img)
               = Inl (no_attribute (get_image_description img http) ''lower'') \<and>
             snd (classify_from_description self (get_image_description img http) img) = self"
    by (cases "get_image_description img http") (simp_all add: classify_from_description_def)
  then have result: "free_classify_figure self img http = fallback_classification self"
    by (simp add: free_classify_figure_def case_prod_unfold)
  show ?thesis
    unfolding result
    by (intro exI [of _ "''unknown''"] exI [of _ "0.3"])
       (simp add: fallback_classification_def figure_categories_def)
qed

subsection \<open>The caption "A bar chart comparing sales" on the plain image\<close>

lemma bar_chart_scores:
  "positive_scores (keyword_scores (py_lower ''A bar chart comparing sales''))
     = [(''bar_chart'', 9), (''chart_other'', 5)]"
  by (simp add: table_defs)

lemma bar_chart_scores_lowered:
  "positive_scores (keyword_scores ''a bar chart comparing sales'')
     = [(''bar_chart'', 9), (''chart_other'', 5)]"
  using bar_chart_scores by (simp add: py_lower_def)

lemma plain_image_no_bonus:
  "enhance_classification_with_analysis plain_image [(''bar_chart'', 9), (''chart_other'', 5)]
     = [(''bar_chart'', 9), (''chart_other'', 5)]"
  by (simp add: enhance_classification_with_analysis_def plain_image_def black_image_def
        bind_exn_def py_div_def)

lemma bar_chart_on_plain_image:
  "classify_from_description new_classifier (JStr ''A bar chart comparing sales'') plain_image =
     (Inr [(''classification'', Str ''bar_chart''),
           (''confidence'', Num 0.95),
           (''description'', Str ''Bar Chart. A bar chart comparing sales''),
           (''details'',
              Dict [(''visual_elements'', StrList [''data visualization'', ''axes'', ''labels'']),
                    (''analysis_method'', Str ''Free local + HuggingFace analysis'')]),
           (''reasoning'',
              Str (''Classified as bar_chart using description ''
                   @ [CHR 0x27] @ ''A bar chart comparing sales'' @ [CHR 0x27]))],
      new_classifier\<lparr>confidence_score := 0.95\<rparr>)"
  by (simp add: classify_from_description_def bar_chart_scores_lowered plain_image_no_bonus
        generate_description_def extract_visual_elements_def py_title_def
        replace_underscores_def py_lower_def Let_def)

lemma plain_image_caption:
  "get_image_description plain_image (caption_response v) = v"
  by (simp add: get_image_description_def plain_image_def black_image_def bind_exn_def
        caption_response_def dict_get_def)

subsection \<open>The confidence at the public boundary\<close>

lemma rule_based_classification_range:
  "case rule_based_classification self f img of
     (Inl e, s) \<Rightarrow> True
   | (Inr c, s) \<Rightarrow> confidence_score s \<in> {0.8, 0.7, 0.6, 0.4} \<and> c \<in> set rule_categories"
  unfolding rule_based_classification_def rule_categories_def Let_def
  by (simp split: sum.splits bool.splits)

lemma py_round1_percent:
  "py_round1 (0.8 * 100) = 80" "py_round1 (0.7 * 100) = 70"
  "py_round1 (0.6 * 100) = 60" "py_round1 (0.4 * 100) = 40"
  by (simp_all add: py_round1_def round_half_even_def)

lemma rule_confidence_percent:
  assumes "v \<in> {0.8, 0.7, 0.6, 0.4}"
  shows "py_round1 (v * 100) \<in> {80, 70, 60, 40, 30} \<and> v = py_round1 (v * 100) / 100"
proof -
  from assms consider "v = 0.8" | "v = 0.7" | "v = 0.6" | "v = 0.4"
    by blast
  then show ?thesis
  proof cases
    case 1
    show ?thesis unfolding 1 by (simp add: py_round1_def round_half_even_def)
  next
    case 2
    show ?thesis unfolding 2 by (simp add: py_round1_def round_half_even_def)
  next
    case 3
    show ?thesis unfolding 3 by (simp add: py_round1_def round_half_even_def)
  next
    case 4
    show ?thesis unfolding 4 by (simp add: py_round1_def round_half_even_def)
  qed
qed

lemma classify_figure_confidence:
  "\<exists>k. map_of (fst (classify_figure self img)) ''confidence'' = Some (Num k) \<and>
       k \<in> {80, 70, 60, 40, 30} \<and>
       (k = 30 \<or>
        k = py_round1 (confidence_score (snd (classify_figure self img)) * 100) \<and>
        confidence_score (snd (classify_figure self img)) = k / 100)"
proof (cases "extract_features img")
  case (Inl e)
  then show ?thesis
    by (simp add: classify_figure_def error_result_def)
next
  case (Inr f)
  obtain R s where Rs: "rule_based_classification self f img = (R, s)"
    by (cases "rule_based_classification self f img")
  show ?thesis
  proof (cases R)
    case (Inl e)
    with Inr Rs show ?thesis
      by (simp add: classify_figure_def error_result_def)
  next
    case category: (Inr c)
    with Rs rule_based_classification_range [of self f img]
    have "confidence_score s \<in> {0.8, 0.7, 0.6, 0.4}" by simp
    then have percent:
      "py_round1 (confidence_score s * 100) \<in> {80, 70, 60, 40, 30} \<and>
       confidence_score s = py_round1 (confidence_score s * 100) / 100"
      by (rule rule_confidence_percent)
    define k where "k = py_round1 (confidence_score s * 100)"
    have result: "classify_figure self img = (rule_result c s, s)"
      using Inr Rs category by (simp add: classify_figure_def)
    have entry: "map_of (rule_result c s) ''confidence'' = Some (Num k)"
      unfolding k_def by (simp add: rule_result_def)
    have scaled: "k = py_round1 (confidence_score s * 100)"
      by (simp only: k_def)
    have range: "k \<in> {80, 70, 60, 40, 30}"
      unfolding k_def using percent by (rule conjunct1)
    have internal: "confidence_score s = k / 100"
      unfolding k_def using percent by (rule conjunct2)
    show ?thesis
      unfolding result fst_conv snd_conv using entry scaled range internal by blast
  qed
qed

text \<open>
  C2, as the code has it. The rule-based classifier returns its internal confidence
  times 100, rounded to one decimal: one of 80, 70, 60 and 40, or the literal 30 of the
  error path; all lie in [0, 100]. The caption-keyword classifier returns its internal
  confidence as it is, a value between 0.3 and 0.95, not scaled.
\<close>

theorem confidence_at_the_boundary:
  fixes self :: classifier and img :: image and http :: "exn + response"
  shows
  "(\<exists>k. map_of (fst (classify_figure self img)) ''confidence'' = Some (Num k) \<and>
        0 \<le> k \<and> k \<le> 100 \<and> k \<in> {80, 70, 60, 40, 30} \<and>
        (k = 30 \<or>
         k = py_round1 (confidence_score (snd (classify_figure self img)) * 100) \<and>
         confidence_score (snd (classify_figure self img)) = k / 100)) \<and>
   (\<exists>k. map_of (fst (free_classify_figure self img http)) ''confidence'' = Some (Num k) \<and>
        0 \<le> k \<and> k \<le> 100 \<and> 0.3 \<le> k \<and> k \<le> 0.95 \<and>
        k = confidence_score (snd (free_classify_figure self img http)))"
proof
  from classify_figure_confidence [of self img] obtain k where
    k: "map_of (fst (classify_figure self img)) ''confidence'' = Some (Num k)"
       "k \<in> {80, 70, 60, 40, 30}"
       "k = 30 \<or>
        k = py_round1 (confidence_score (snd (classify_figure self img)) * 100) \<and>
        confidence_score (snd (classify_figure self img)) = k / 100"
    by blast
  from k(2) have "0 \<le> k \<and> k \<le> 100" by auto
  with k show "\<exists>k. map_of (fst (classify_figure self img)) ''confidence'' = Some (Num k) \<and>
        0 \<le> k \<and> k \<le> 100 \<and> k \<in> {80, 70, 60, 40, 30} \<and>
        (k = 30 \<or>
         k = py_round1 (confidence_score (snd (classify_figure self img)) * 100) \<and>
         confidence_score (snd (classify_figure self img)) = k / 100)"
    by blast
next
  from free_classify_figure_summary [of self img http] obtain k where
    k: "map_of (fst (free_classify_figure self img http)) ''confidence'' = Some (Num k)"
       "confidence_score (snd (free_classify_figure self img http)) = k"
       "0.3 \<le> k \<and> k \<le> 0.95"
    by blast
  from k(3) have "0 \<le> k \<and> k \<le> 100" by simp
  with k show "\<exists>k. map_of (fst (free_classify_figure self img http)) ''confidence'' = Some (Num k) \<and>
        0 \<le> k \<and> k \<le> 100 \<and> 0.3 \<le> k \<and> k \<le> 0.95 \<and>
        k = confidence_score (snd (free_classify_figure self img http))"
    by blast
qed

text \<open>
  The theorem on the plain image with the caption "A bar chart comparing sales": the
  rule-based classifier returns 40, one hundred times its internal 0.4; the
  caption-keyword classifier returns 0.95, its internal confidence itself.
\<close>

theorem confidence_at_the_boundary_witness:
  "map_of (fst (classify_figure new_classifier plain_image)) ''confidence'' = Some (Num 40) \<and>
   confidence_score (snd (classify_figure new_classifier plain_image)) = 0.4 \<and>
   map_of (fst (free_classify_figure new_classifier plain_image
                  (caption_response (JStr ''A bar chart comparing sales''))))
     ''confidence'' = Some (Num 0.95) \<and>
   confidence_score (snd (free_classify_figure new_classifier plain_image
                  (caption_response (JStr ''A bar chart comparing sales'')))) = 0.95"
proof -
  have rule: "classify_figure new_classifier plain_image =
      (rule_result ''diagram'' (new_classifier\<lparr>confidence_score := 0.4\<rparr>),
       new_classifier\<lparr>confidence_score := 0.4\<rparr>)"
    by (simp add: classify_figure_def extract_defs rule_defs plain_image_def black_image_def)
  have free: "map_of (fst (free_classify_figure new_classifier plain_image
                  (caption_response (JStr ''A bar chart comparing sales''))))
     ''confidence'' = Some (Num 0.95)"
    by (simp add: free_classify_figure_def plain_image_caption bar_chart_on_plain_image
          dict_get_def update_conv')
  from confidence_at_the_boundary
         [of new_classifier plain_image "caption_response (JStr ''A bar chart comparing sales'')"]
       rule free
  show ?thesis
    by (auto simp: rule_result_def py_round1_def round_half_even_def)
qed

text \<open>
  The caption-keyword classifier does not scale: for the caption "A bar chart comparing
  sales" the confidence it returns is 0.95, the internal value, where one hundred times
  it, rounded to one decimal, is 95.
\<close>

theorem free_confidence_unscaled_counterexample:
  "map_of (fst (free_classify_figure new_classifier plain_image
                  (caption_response (JStr ''A bar chart comparing sales''))))
     ''confidence'' = Some (Num 0.95) \<and>
   confidence_score (snd (free_classify_figure new_classifier plain_image
                  (caption_response (JStr ''A bar chart comparing sales'')))) = 0.95 \<and>
   py_round1 (0.95 * 100) = 95 \<and>
   map_of (fst (free_classify_figure new_classifier plain_image
                  (caption_response (JStr ''A bar chart comparing sales''))))
     ''confidence'' \<noteq> Some (Num (py_round1 (0.95 * 100)))"
  by (simp add: free_classify_figure_def plain_image_caption bar_chart_on_plain_image
        dict_get_def update_conv' py_round1_def round_half_even_def)

subsection \<open>Keyword scores\<close>

lemma starts_with_iff: "starts_with s w \<longleftrightarrow> (\<exists>q. s = w @ q)"
  by (induction s w rule: starts_with.induct) auto

lemma py_in_iff: "py_in w s \<longleftrightarrow> (\<exists>p q. s = p @ w @ q)"
proof (induction s)
  case Nil
  show ?case by auto
next
  case (Cons c s)
  have "(\<exists>p q. c # s = p @ w @ q) \<longleftrightarrow> (\<exists>q. c # s = w @ q) \<or> (\<exists>p q. s = p @ w @ q)"
  proof
    assume "\<exists>p q. c # s = p @ w @ q"
    then obtain p q where pq: "c # s = p @ w @ q" by blast
    show "(\<exists>q. c # s = w @ q) \<or> (\<exists>p q. s = p @ w @ q)"
    proof (cases p)
      case Nil
      with pq show ?thesis by auto
    next
      case (Cons a p')
      with pq have "s = p' @ w @ q" by simp
      then show ?thesis by blast
    qed
  next
    assume "(\<exists>q. c # s = w @ q) \<or> (\<exists>p q. s = p @ w @ q)"
    then show "\<exists>p q. c # s = p @ w @ q"
    proof
      assume "\<exists>q. c # s = w @ q"
      then obtain q where "c # s = [] @ w @ q" by auto
      then show ?thesis by blast
    next
      assume "\<exists>p q. s = p @ w @ q"
      then obtain p q where "c # s = (c # p) @ w @ q" by auto
      then show ?thesis by blast
    qed
  qed
  with Cons show ?case by (simp add: starts_with_iff)
qed

lemma py_in_lower_iff:
  "py_in w (py_lower d) \<longleftrightarrow> (\<exists>p x q. d = p @ x @ q \<and> py_lower x = w)"
proof
  assume "py_in w (py_lower d)"
  then obtain p' q' where "map py_lower_char d = p' @ w @ q'"
    by (auto simp: py_in_iff py_lower_def)
  then obtain p r where d: "d = p @ r" and "map py_lower_char r = w @ q'"
    by (metis map_eq_append_conv)
  then obtain x q where "r = x @ q" and "map py_lower_char x = w"
    by (metis map_eq_append_conv)
  with d show "\<exists>p x q. d = p @ x @ q \<and> py_lower x = w"
    by (auto simp: py_lower_def)
next
  assume "\<exists>p x q. d = p @ x @ q \<and> py_lower x = w"
  then obtain p x q where "d = p @ x @ q" and "py_lower x = w" by blast
  then have "py_lower d = py_lower p @ w @ py_lower q"
    by (simp add: py_lower_def)
  then show "py_in w (py_lower d)"
    unfolding py_in_iff by blast
qed

lemma keywords_are_lowered:
  "list_all (\<lambda>(k, ws). list_all (\<lambda>w. py_lower w = w) ws) figure_categories"
  by (simp add: figure_categories_def py_lower_def)

lemma keyword_occurs:
  assumes "(k, ws) \<in> set figure_categories" and "w \<in> set ws"
  shows "py_in w (py_lower d) \<longleftrightarrow> occurs_ignoring_case w d"
proof -
  from assms keywords_are_lowered have "py_lower w = w"
    by (auto simp: list_all_iff)
  then show ?thesis
    by (simp add: py_in_lower_iff occurs_ignoring_case_def)
qed

lemma figure_categories_distinct: "distinct (map fst figure_categories)"
  by (simp add: figure_categories_def)

lemma keyword_score:
  assumes "(k, ws) \<in> set figure_categories"
  shows "map_of (keyword_scores (py_lower d)) k =
           Some (sum_list (map (\<lambda>w. int (length w))
                             (filter (\<lambda>w. occurs_ignoring_case w d) ws)))"
proof -
  have same: "filter (\<lambda>w. py_in w (py_lower d)) ws = filter (\<lambda>w. occurs_ignoring_case w d) ws"
    using assms by (intro filter_cong refl) (rule keyword_occurs)
  have "map_of figure_categories k = Some ws"
    using assms figure_categories_distinct by (rule map_of_is_SomeI [rotated])
  then have "map_of (keyword_scores (py_lower d)) k =
      Some (sum_list (map (\<lambda>w. int (length w)) (filter (\<lambda>w. py_in w (py_lower d)) ws)))"
    unfolding keyword_scores_def by (simp add: map_of_map)
  with same show ?thesis by simp
qed

lemma positive_scores_set:
  "set (positive_scores scores) = {(k, v). (k, v) \<in> set scores \<and> 0 < v}"
  by (auto simp: positive_scores_def)

lemma winner_of_adjusted_scores:
  assumes "adjusted_scores img d = item # items"
  shows "\<exists>c v r. fst (classify_from_description self (JStr d) img) = Inr r \<and>
           (c, v) \<in> set (adjusted_scores img d) \<and>
           list_all (\<lambda>(c', v'). v' \<le> v) (adjusted_scores img d) \<and>
           map_of r ''classification'' = Some (Str c) \<and>
           map_of r ''confidence'' = Some (Num (min 0.95 (0.5 + real_of_int v / 20)))"
proof -
  define best where "best = max_by_value item items"
  have mem: "best \<in> set (adjusted_scores img d)"
    unfolding best_def assms by (rule max_by_value_mem)
  have "snd x \<le> snd best" if "x \<in> set (item # items)" for x
    using that max_by_value_ge [of x items item] max_by_value_ge_best [of item items]
    unfolding best_def by auto
  then have "\<forall>x \<in> set (item # items). snd x \<le> snd best"
    by blast
  then have top: "list_all (\<lambda>(c', v'). v' \<le> snd best) (adjusted_scores img d)"
    unfolding assms by (simp add: list_all_iff case_prod_unfold)
  have "fst (classify_from_description self (JStr d) img) =
      Inr [(''classification'', Str (fst best)),
           (''confidence'', Num (min 0.95 (0.5 + real_of_int (snd best) / 20))),
           (''description'', Str (generate_description (fst best) d)),
           (''details'',
              Dict [(''visual_elements'', StrList (extract_visual_elements d (fst best))),
                    (''analysis_method'', Str ''Free local + HuggingFace analysis'')]),
           (''reasoning'',
              Str (''Classified as '' @ fst best
                   @ '' using description '' @ [CHR 0x27] @ d @ [CHR 0x27]))]"
    using assms unfolding best_def adjusted_scores_def
    by (simp add: classify_from_description_def Let_def)
  then have "fst (classify_from_description self (JStr d) img) =
      Inr [(''classification'', Str (fst best)),
           (''confidence'', Num (min 0.95 (0.5 + real_of_int (snd best) / 20))),
           (''description'', Str (generate_description (fst best) d)),
           (''details'',
              Dict [(''visual_elements'', StrList (extract_visual_elements d (fst best))),
                    (''analysis_method'', Str ''Free local + HuggingFace analysis'')]),
           (''reasoning'',
              Str (''Classified as '' @ fst best
                   @ '' using description '' @ [CHR 0x27] @ d @ [CHR 0x27]))] \<and>
      (fst best, snd best) \<in> set (adjusted_scores img d) \<and>
      list_all (\<lambda>(c', v'). v' \<le> snd best) (adjusted_scores img d)"
    using mem top by simp
  then show ?thesis
    by (intro exI [of _ "fst best"] exI [of _ "snd best"]) auto
qed

text \<open>
  C4. The score of a category is the sum of the lengths of its keywords that occur in
  the caption ignoring case. Only the categories with a positive score are reweighted,
  and the reweighting adds no category. When a category is left, the result carries a
  category whose adjusted score no other exceeds, and the confidence
  \<open>min 0.95 (0.5 + score / 20)\<close> of that score. For the caption "A bar chart comparing
  sales" the positive scores are 9 for bar\_chart ("bar chart") and 5 for chart\_other
  ("chart"); when no visual bonus changes them, the result is bar\_chart, chosen with
  score 9, with confidence 0.95.
\<close>

theorem caption_keyword_scoring:
  fixes d :: string and img :: image and self :: classifier
  shows
  "(\<forall>k ws. (k, ws) \<in> set figure_categories \<longrightarrow>
       map_of (keyword_scores (py_lower d)) k =
         Some (sum_list (map (\<lambda>w. int (length w))
                           (filter (\<lambda>w. occurs_ignoring_case w d) ws)))) \<and>
   set (positive_scores (keyword_scores (py_lower d))) =
     {(k, v). (k, v) \<in> set (keyword_scores (py_lower d)) \<and> 0 < v} \<and>
   map fst (adjusted_scores img d) = map fst (positive_scores (keyword_scores (py_lower d))) \<and>
   (adjusted_scores img d \<noteq> [] \<longrightarrow>
      (\<exists>c v r. fst (classify_from_description self (JStr d) img) = Inr r \<and>
         (c, v) \<in> set (adjusted_scores img d) \<and>
         list_all (\<lambda>(c', v'). v' \<le> v) (adjusted_scores img d) \<and>
         map_of r ''classification'' = Some (Str c) \<and>
         map_of r ''confidence'' = Some (Num (min 0.95 (0.5 + real_of_int v / 20))))) \<and>
   positive_scores (keyword_scores (py_lower ''A bar chart comparing sales''))
     = [(''bar_chart'', 9), (''chart_other'', 5)] \<and>
   (adjusted_scores img ''A bar chart comparing sales''
      = positive_scores (keyword_scores (py_lower ''A bar chart comparing sales'')) \<longrightarrow>
      max_by_value (''bar_chart'', 9) [(''chart_other'', 5)] = (''bar_chart'', 9) \<and>
      (\<exists>r. fst (classify_from_description self (JStr ''A bar chart comparing sales'') img)
              = Inr r \<and>
           map_of r ''classification'' = Some (Str ''bar_chart'') \<and>
           map_of r ''confidence'' = Some (Num 0.95) \<and>
           min 0.95 (0.5 + real_of_int 9 / 20) = (0.95 :: real)))"
proof (intro conjI allI impI)
  fix k ws
  assume "(k, ws) \<in> set figure_categories"
  then show "map_of (keyword_scores (py_lower d)) k =
         Some (sum_list (map (\<lambda>w. int (length w))
                           (filter (\<lambda>w. occurs_ignoring_case w d) ws)))"
    by (rule keyword_score)
next
  show "set (positive_scores (keyword_scores (py_lower d))) =
     {(k, v). (k, v) \<in> set (keyword_scores (py_lower d)) \<and> 0 < v}"
    by (rule positive_scores_set)
next
  show "map fst (adjusted_scores img d)
          = map fst (positive_scores (keyword_scores (py_lower d)))"
    unfolding adjusted_scores_def by (rule enhance_keys)
next
  assume "adjusted_scores img d \<noteq> []"
  then obtain item items where "adjusted_scores img d = item # items"
    by (cases "adjusted_scores img d") auto
  then show "\<exists>c v r. fst (classify_from_description self (JStr d) img) = Inr r \<and>
         (c, v) \<in> set (adjusted_scores img d) \<and>
         list_all (\<lambda>(c', v'). v' \<le> v) (adjusted_scores img d) \<and>
         map_of r ''classification'' = Some (Str c) \<and>
         map_of r ''confidence'' = Some (Num (min 0.95 (0.5 + real_of_int v / 20)))"
    by (rule winner_of_adjusted_scores)
next
  show "positive_scores (keyword_scores (py_lower ''A bar chart comparing sales''))
     = [(''bar_chart'', 9), (''chart_other'', 5)]"
    by (rule bar_chart_scores)
next
  show "max_by_value (''bar_chart'', 9) [(''chart_other'', 5)] = (''bar_chart'', 9)"
    by simp
next
  assume "adjusted_scores img ''A bar chart comparing sales''
      = positive_scores (keyword_scores (py_lower ''A bar chart comparing sales''))"
  then have "enhance_classification_with_analysis img
               (positive_scores (keyword_scores (py_lower ''A bar chart comparing sales'')))
             = [(''bar_chart'', 9), (''chart_other'', 5)]"
    by (simp add: adjusted_scores_def bar_chart_scores)
  then have "fst (classify_from_description self (JStr ''A bar chart comparing sales'') img) =
      Inr [(''classification'', Str ''bar_chart''),
           (''confidence'', Num 0.95),
           (''description'',
              Str (generate_description ''bar_chart'' ''A bar chart comparing sales'')),
           (''details'',
              Dict [(''visual_elements'',
                       StrList (extract_visual_elements ''A bar chart comparing sales''
                                  ''bar_chart'')),
                    (''analysis_method'', Str ''Free local + HuggingFace analysis'')]),
           (''reasoning'',
              Str (''Classified as '' @ ''bar_chart''
                   @ '' using description '' @ [CHR 0x27] @ ''A bar chart comparing sales''
                   @ [CHR 0x27]))]"
    by (simp add: classify_from_description_def Let_def)
  then show "\<exists>r. fst (classify_from_description self (JStr ''A bar chart comparing sales'') img)
              = Inr r \<and>
           map_of r ''classification'' = Some (Str ''bar_chart'') \<and>
           map_of r ''confidence'' = Some (Num 0.95) \<and>
           min 0.95 (0.5 + real_of_int 9 / 20) = (0.95 :: real)"
    by simp
qed

text \<open>
  The theorem on the plain image, where no bonus applies: the adjusted scores are the
  positive scores, the score of bar\_chart is the length of "bar chart", and the result
  is bar\_chart with confidence 0.95.
\<close>

theorem caption_keyword_scoring_witness:
  "(''bar_chart'', [''bar chart'', ''bar graph'', ''column chart'', ''histogram'', ''bars''])
     \<in> set figure_categories \<and>
   map_of (keyword_scores (py_lower ''A bar chart comparing sales'')) ''bar_chart''
     = Some (int (length ''bar chart'')) \<and>
   adjusted_scores plain_image ''A bar chart comparing sales''
     = [(''bar_chart'', 9), (''chart_other'', 5)] \<and>
   map_of (fst (free_classify_figure new_classifier plain_image
                  (caption_response (JStr ''A bar chart comparing sales''))))
     ''classification'' = Some (Str ''bar_chart'') \<and>
   map_of (fst (free_classify_figure new_classifier plain_image
                  (caption_response (JStr ''A bar chart comparing sales''))))
     ''confidence'' = Some (Num 0.95)"
proof -
  have key: "(''bar_chart'', [''bar chart'', ''bar graph'', ''column chart'', ''histogram'', ''bars''])
     \<in> set figure_categories"
    by (simp add: figure_categories_def)
  have adjusted: "adjusted_scores plain_image ''A bar chart comparing sales''
     = [(''bar_chart'', 9), (''chart_other'', 5)]"
    by (simp add: adjusted_scores_def bar_chart_scores plain_image_no_bonus)
  have score: "map_of (keyword_scores (py_lower ''A bar chart comparing sales'')) ''bar_chart''
     = Some 9"
    by (simp add: keyword_scores_def figure_categories_def py_lower_def)
  have public: "fst (free_classify_figure new_classifier plain_image
                  (caption_response (JStr ''A bar chart comparing sales''))) =
      AList.update ''classification'' (Str ''bar_chart'')
        (AList.update ''type'' (UStr (rendered_type ''bar_chart''))
           (projr (fst (classify_from_description new_classifier
                          (JStr ''A bar chart comparing sales'') plain_image))))"
    by (simp add: free_classify_figure_def plain_image_caption bar_chart_on_plain_image
          dict_get_def)
  from caption_keyword_scoring [of "''A bar chart comparing sales''" plain_image new_classifier]
       key adjusted score public
  show ?thesis
    by (auto simp: bar_chart_scores update_conv')
qed

subsection \<open>The visual fallback\<close>

text \<open>
  The aspect ratio as \<^verbatim>\<open>f"{ar:.2f}"\<close> prints it. The quotients \<open>1 / 40\<close> and \<open>3 / 200\<close> lie
  halfway between two printed values; the doubles do not, and decide the last digit.
\<close>

lemma to_double_examples:
  "to_double 3 = 3"
  "to_double (1 / 8) = 1 / 8"
  "to_double (1 / 10) = 3602879701896397 / 36028797018963968"
  "to_double (1 / 40) = 3602879701896397 / 144115188075855872"
  "to_double (3 / 200) = 1080863910568919 / 72057594037927936"
  by (simp_all add: to_double_def binary_exponent_def pow2_def round_half_even_def Let_def)

lemma format_2f_examples:
  "format_2f 3 = ''3.00''"
  "format_2f (16 / 10) = ''1.60''"
  "format_2f (1 / 8) = ''0.12''"
  "format_2f (3 / 8) = ''0.38''"
  "format_2f (1 / 40) = ''0.03''"
  "format_2f (3 / 200) = ''0.01''"
  "format_2f (1234 / 7) = ''176.29''"
  by (simp_all add: format_2f_def to_double_def binary_exponent_def pow2_def
        round_half_even_def digit_char_def Let_def)

lemma no_keyword_goes_visual:
  assumes "positive_scores (keyword_scores (py_lower d)) = []"
  shows "classify_from_description self (JStr d) img =
           (Inr (fst (classify_by_visual_analysis self img d)),
            snd (classify_by_visual_analysis self img d))"
  using assms
  by (simp add: classify_from_description_def enhance_empty case_prod_unfold)

lemma visual_choice_color:
  assumes "shape img = [h, w, c]" "0 < h" "0 < w"
  shows "visual_choice img =
     Inr (if 0.1 < real (unique_colors img) / real (h * w)
          then (''photograph'', 0.6, real w / real h)
          else if 2 < real w / real h then (''timeline'', 0.5, real w / real h)
          else if 0.8 \<le> real w / real h \<and> real w / real h \<le> 1.2
          then (''chart_other'', 0.5, real w / real h)
          else (''diagram_other'', 0.4, real w / real h))"
  using assms
  by (simp add: visual_choice_def bind_exn_def py_div_def split del: if_split)

lemma visual_choice_gray:
  assumes "shape img = [h, w]" "0 < h"
  shows "visual_choice img = Inr (''diagram_other'', 0.4, real w / real h)"
  using assms
  by (simp add: visual_choice_def bind_exn_def py_div_def)

lemma visual_result_entries:
  "category_and_confidence (fst (classify_by_visual_analysis self img d)) =
     (case visual_choice img of
        Inl e \<Rightarrow> (Some (Str ''unknown''), Some (Num 0.3))
      | Inr (c, k, ar) \<Rightarrow> (Some (Str c), Some (Num k)))"
  by (simp add: classify_by_visual_analysis_def fallback_classification_def
        category_and_confidence_def split: sum.splits prod.splits)

lemma table_keys_in_enumeration:
  "set (map fst figure_categories) \<subseteq> set spec_categories"
  by (simp add: figure_categories_def spec_categories_def)

lemma public_entries_of_caption:
  assumes "get_image_description img http = JStr d"
  shows "category_and_confidence (fst (free_classify_figure self img http)) =
         category_and_confidence (fst (projr (fst (classify_from_description self (JStr d) img)),
                                       self))"
proof -
  from classify_from_description_summary [of self d img] obtain r c k where
    r: "fst (classify_from_description self (JStr d) img) = Inr r"
      "map_of r ''classification'' = Some (Str c)"
      "map_of r ''confidence'' = Some (Num k)"
    by blast
  obtain s where s: "classify_from_description self (JStr d) img = (Inr r, s)"
    using r(1) by (cases "classify_from_description self (JStr d) img") simp
  have "free_classify_figure self img http =
      (AList.update ''classification'' (Str c)
         (AList.update ''type'' (UStr (rendered_type c)) r), s)"
    using assms s r(2) by (simp add: free_classify_figure_def dict_get_def)
  with r s show ?thesis
    by (simp add: category_and_confidence_def update_conv')
qed

text \<open>
  C5, as the code has it. A caption without a positive keyword score is classified
  by \<^verbatim>\<open>_classify_by_visual_analysis\<close>. On an array of three dimensions the choice is
  the one of the specification: color diversity above 0.1 gives photograph with 0.6,
  otherwise an aspect ratio above 2 gives timeline with 0.5, otherwise one in
  [0.8, 1.2] gives chart\_other with 0.5, otherwise diagram\_other with 0.4. On an array
  of two dimensions (a single-channel image) the result is diagram\_other with 0.4
  whatever the aspect ratio, and when the analysis raises it is unknown with 0.3. The
  category at the public boundary is always in the closed enumeration. The caption
  "xyz unintelligible" has no positive score.
\<close>

theorem unmatched_caption_visual_fallback:
  fixes d :: string and img :: image and self :: classifier and http :: "exn + response"
    and h w c :: nat
  shows
  "positive_scores (keyword_scores (py_lower ''xyz unintelligible'')) = [] \<and>
   (positive_scores (keyword_scores (py_lower d)) = [] \<longrightarrow>
      classify_from_description self (JStr d) img =
        (Inr (fst (classify_by_visual_analysis self img d)),
         snd (classify_by_visual_analysis self img d)) \<and>
      (get_image_description img http = JStr d \<longrightarrow>
         category_and_confidence (fst (free_classify_figure self img http)) =
         category_and_confidence (fst (classify_by_visual_analysis self img d)))) \<and>
   (shape img = [h, w, c] \<and> 0 < h \<and> 0 < w \<longrightarrow>
      category_and_confidence (fst (classify_by_visual_analysis self img d)) =
        (if 0.1 < real (unique_colors img) / real (h * w)
         then (Some (Str ''photograph''), Some (Num 0.6))
         else if 2 < real w / real h then (Some (Str ''timeline''), Some (Num 0.5))
         else if 0.8 \<le> real w / real h \<and> real w / real h \<le> 1.2
         then (Some (Str ''chart_other''), Some (Num 0.5))
         else (Some (Str ''diagram_other''), Some (Num 0.4)))) \<and>
   (shape img = [h, w] \<and> 0 < h \<longrightarrow>
      category_and_confidence (fst (classify_by_visual_analysis self img d)) =
        (Some (Str ''diagram_other''), Some (Num 0.4))) \<and>
   ((\<exists>e. visual_choice img = Inl e) \<longrightarrow>
      category_and_confidence (fst (classify_by_visual_analysis self img d)) =
        (Some (Str ''unknown''), Some (Num 0.3))) \<and>
   (\<exists>category. map_of (fst (free_classify_figure self img http)) ''classification''
                  = Some (Str category) \<and>
               category \<in> set spec_categories)"
proof (intro conjI impI)
  show "positive_scores (keyword_scores (py_lower ''xyz unintelligible'')) = []"
    by (simp add: table_defs)
next
  assume none: "positive_scores (keyword_scores (py_lower d)) = []"
  then show visual: "classify_from_description self (JStr d) img =
        (Inr (fst (classify_by_visual_analysis self img d)),
         snd (classify_by_visual_analysis self img d))"
    by (rule no_keyword_goes_visual)
  assume "get_image_description img http = JStr d"
  then have "category_and_confidence (fst (free_classify_figure self img http)) =
         category_and_confidence (fst (projr (fst (classify_from_description self (JStr d) img)),
                                       self))"
    by (rule public_entries_of_caption)
  then show "category_and_confidence (fst (free_classify_figure self img http)) =
         category_and_confidence (fst (classify_by_visual_analysis self img d))"
    by (simp add: visual)
next
  assume "shape img = [h, w, c] \<and> 0 < h \<and> 0 < w"
  then have "visual_choice img =
     Inr (if 0.1 < real (unique_colors img) / real (h * w)
          then (''photograph'', 0.6, real w / real h)
          else if 2 < real w / real h then (''timeline'', 0.5, real w / real h)
          else if 0.8 \<le> real w / real h \<and> real w / real h \<le> 1.2
          then (''chart_other'', 0.5, real w / real h)
          else (''diagram_other'', 0.4, real w / real h))"
    by (intro visual_choice_color) simp_all
  then show "category_and_confidence (fst (classify_by_visual_analysis self img d)) =
        (if 0.1 < real (unique_colors img) / real (h * w)
         then (Some (Str ''photograph''), Some (Num 0.6))
         else if 2 < real w / real h then (Some (Str ''timeline''), Some (Num 0.5))
         else if 0.8 \<le> real w / real h \<and> real w / real h \<le> 1.2
         then (Some (Str ''chart_other''), Some (Num 0.5))
         else (Some (Str ''diagram_other''), Some (Num 0.4)))"
    unfolding visual_result_entries by simp
next
  assume "shape img = [h, w] \<and> 0 < h"
  then have "visual_choice img = Inr (''diagram_other'', 0.4, real w / real h)"
    by (intro visual_choice_gray) simp_all
  then show "category_and_confidence (fst (classify_by_visual_analysis self img d)) =
        (Some (Str ''diagram_other''), Some (Num 0.4))"
    unfolding visual_result_entries by simp
next
  assume "\<exists>e. visual_choice img = Inl e"
  then show "category_and_confidence (fst (classify_by_visual_analysis self img d)) =
        (Some (Str ''unknown''), Some (Num 0.3))"
    unfolding visual_result_entries by auto
next
  from free_classify_figure_summary [of self img http] table_keys_in_enumeration
  show "\<exists>category. map_of (fst (free_classify_figure self img http)) ''classification''
                  = Some (Str category) \<and>
               category \<in> set spec_categories"
    by blast
qed

lemma black_image_caption:
  "get_image_description (black_image s) (caption_response v) = v"
  by (simp add: get_image_description_def black_image_def bind_exn_def
        caption_response_def dict_get_def)

text \<open>
  The theorem with the caption "xyz unintelligible" on three black images: a square
  color image of 4 by 4 pixels (color diversity 1/16, chart\_other), a single-channel
  image of 10 rows and 30 columns (diagram\_other), and an image of height zero
  (unknown).
\<close>

theorem unmatched_caption_visual_fallback_witness:
  "category_and_confidence
     (fst (free_classify_figure new_classifier (black_image [4, 4, 3])
             (caption_response (JStr ''xyz unintelligible''))))
     = (Some (Str ''chart_other''), Some (Num 0.5)) \<and>
   category_and_confidence
     (fst (free_classify_figure new_classifier (black_image [10, 30])
             (caption_response (JStr ''xyz unintelligible''))))
     = (Some (Str ''diagram_other''), Some (Num 0.4)) \<and>
   visual_choice (black_image [0, 30]) = Inl (ZeroDivisionError ''division by zero'') \<and>
   category_and_confidence
     (fst (free_classify_figure new_classifier (black_image [0, 30])
             (caption_response (JStr ''xyz unintelligible''))))
     = (Some (Str ''unknown''), Some (Num 0.3)) \<and>
   ''chart_other'' \<in> set spec_categories"
proof -
  have obs: "shape (black_image s) = s" "unique_colors (black_image s) = 1" for s
    by (simp_all add: black_image_def)
  have raised: "visual_choice (black_image [0, 30]) = Inl (ZeroDivisionError ''division by zero'')"
    by (simp add: visual_choice_def bind_exn_def py_div_def black_image_def)
  from unmatched_caption_visual_fallback
         [of "''xyz unintelligible''" new_classifier "black_image [4, 4, 3]"
             "caption_response (JStr ''xyz unintelligible'')" 4 4 3]
       unmatched_caption_visual_fallback
         [of "''xyz unintelligible''" new_classifier "black_image [10, 30]"
             "caption_response (JStr ''xyz unintelligible'')" 10 30 3]
       unmatched_caption_visual_fallback
         [of "''xyz unintelligible''" new_classifier "black_image [0, 30]"
             "caption_response (JStr ''xyz unintelligible'')" 0 30 3]
       raised
  show ?thesis
    by (simp add: obs black_image_caption spec_categories_def)
qed

text \<open>
  A single-channel image of 10 rows and 30 columns has aspect ratio 3 and no color
  diversity above 0.1, and with the caption "xyz unintelligible" it is classified
  diagram\_other with confidence 0.4, not timeline with 0.5.
\<close>

theorem wide_gray_image_counterexample:
  "positive_scores (keyword_scores (py_lower ''xyz unintelligible'')) = [] \<and>
   visual_choice (black_image [10, 30]) = Inr (''diagram_other'', 0.4, 3) \<and>
   category_and_confidence
     (fst (free_classify_figure new_classifier (black_image [10, 30])
             (caption_response (JStr ''xyz unintelligible''))))
     = (Some (Str ''diagram_other''), Some (Num 0.4)) \<and>
   category_and_confidence
     (fst (free_classify_figure new_classifier (black_image [10, 30])
             (caption_response (JStr ''xyz unintelligible''))))
     \<noteq> (Some (Str ''timeline''), Some (Num 0.5))"
proof -
  have none: "positive_scores (keyword_scores (py_lower ''xyz unintelligible'')) = []"
    by (simp add: table_defs)
  have choice: "visual_choice (black_image [10, 30]) = Inr (''diagram_other'', 0.4, 3)"
    by (simp add: visual_choice_def bind_exn_def py_div_def black_image_def)
  have "fst (free_classify_figure new_classifier (black_image [10, 30])
             (caption_response (JStr ''xyz unintelligible''))) =
      AList.update ''classification'' (Str ''diagram_other'')
        (AList.update ''type'' (UStr (rendered_type ''diagram_other''))
           (fst (classify_by_visual_analysis new_classifier (black_image [10, 30])
                   ''xyz unintelligible'')))"
    by (simp add: free_classify_figure_def black_image_caption no_keyword_goes_visual [OF none]
          classify_by_visual_analysis_def choice dict_get_def)
  then have "category_and_confidence
     (fst (free_classify_figure new_classifier (black_image [10, 30])
             (caption_response (JStr ''xyz unintelligible''))))
     = (Some (Str ''diagram_other''), Some (Num 0.4))"
    by (simp add: category_and_confidence_def update_conv' classify_by_visual_analysis_def
          choice)
  with none choice show ?thesis by simp
qed

subsection \<open>The type string of the two classifiers\<close>

lemma shared_categories_list:
  "shared_categories =
     [''pie_chart'', ''bar_chart'', ''line_graph'', ''table'', ''flowchart'', ''photograph'',
      ''scientific_diagram'', ''scatter_plot'', ''map'']"
  by (simp add: shared_categories_def rule_categories_def figure_categories_def)

lemma rule_based_categories:
  "outcome (rule_based_classification self f img) = Inr (c, k) \<Longrightarrow> c \<in> set rule_categories"
  using rule_based_classification_range [of self f img]
  by (auto simp: outcome_def split: prod.splits sum.splits)

lemma type_strings_of_shared:
  "map (\<lambda>c. (map_to_label c, rendered_type c)) shared_categories =
     [(0x1F7E2 # u '' Pie Chart'', 0x1F967 # u '' Pie Chart''),
      (0x1F4CA # u '' Bar Chart'', 0x1F4CA # u '' Bar Chart''),
      (0x1F4C8 # u '' Line Graph'', 0x1F4C8 # u '' Line Graph''),
      (0x1F4CB # u '' Table'', 0x1F4CB # u '' Table''),
      (0x1F4D0 # u '' Flowchart'', 0x1F501 # u '' Flowchart''),
      (0x1F4F7 # u '' Photograph'', 0x1F4F7 # u '' Photograph''),
      (0x1F4D0 # u '' Scientific Diagram'', 0x1F9EA # u '' Scientific Diagram''),
      (0x1F535 # u '' Scatter Plot'', 0x1F4C9 # u '' Scatter Plot''),
      (0x1F5FA # 0xFE0F # u '' Map'', 0x1F5FA # 0xFE0F # u '' Map'')]"
  by (simp add: shared_categories_list render_defs)

lemma same_type_iff:
  "list_all (\<lambda>c. (map_to_label c = rendered_type c) =
                  (c \<in> set [''bar_chart'', ''line_graph'', ''table'', ''photograph'', ''map'']))
     shared_categories"
  by (simp add: shared_categories_list render_defs)

lemma same_label_text:
  "list_all (\<lambda>c. label_text (map_to_label c) = label_text (rendered_type c) \<and>
                  label_text (rendered_type c) = u ('' '' @ py_title (replace_underscores c)))
     shared_categories"
  by (simp add: shared_categories_list render_defs label_text_def)

text \<open>
  C6, as the code has it. The rule-based classifier returns one of its ten categories
  and the caption-keyword classifier a key of its keyword table; nine categories are
  common to both. On each of them the two type strings carry the same Title Case label
  after the glyph. The whole type string is the same for bar\_chart, line\_graph, table,
  photograph and map, and differs in the glyph for pie\_chart, flowchart,
  scientific\_diagram and scatter\_plot.
\<close>

theorem type_string_of_shared_categories:
  fixes self :: classifier and f :: features and img :: image and http :: "exn + response"
  shows
  "(\<forall>c k. outcome (rule_based_classification self f img) = Inr (c, k) \<longrightarrow>
           c \<in> set rule_categories) \<and>
   (\<exists>c. map_of (fst (free_classify_figure self img http)) ''classification'' = Some (Str c) \<and>
        c \<in> set (map fst figure_categories)) \<and>
   shared_categories =
     [''pie_chart'', ''bar_chart'', ''line_graph'', ''table'', ''flowchart'', ''photograph'',
      ''scientific_diagram'', ''scatter_plot'', ''map''] \<and>
   (\<forall>c \<in> set shared_categories.
      label_text (map_to_label c) = label_text (rendered_type c) \<and>
      label_text (rendered_type c) = u ('' '' @ py_title (replace_underscores c))) \<and>
   (\<forall>c \<in> set shared_categories.
      (map_to_label c = rendered_type c) =
      (c \<in> set [''bar_chart'', ''line_graph'', ''table'', ''photograph'', ''map'']))"
proof (intro conjI allI impI)
  fix c k
  assume "outcome (rule_based_classification self f img) = Inr (c, k)"
  then show "c \<in> set rule_categories" by (rule rule_based_categories)
next
  from free_classify_figure_summary [of self img http]
  show "\<exists>c. map_of (fst (free_classify_figure self img http)) ''classification'' = Some (Str c) \<and>
        c \<in> set (map fst figure_categories)"
    by blast
next
  show "shared_categories =
     [''pie_chart'', ''bar_chart'', ''line_graph'', ''table'', ''flowchart'', ''photograph'',
      ''scientific_diagram'', ''scatter_plot'', ''map'']"
    by (rule shared_categories_list)
next
  from same_label_text
  show "\<forall>c \<in> set shared_categories.
      label_text (map_to_label c) = label_text (rendered_type c) \<and>
      label_text (rendered_type c) = u ('' '' @ py_title (replace_underscores c))"
    by (simp only: list_all_iff)
next
  from same_type_iff
  show "\<forall>c \<in> set shared_categories.
      (map_to_label c = rendered_type c) =
      (c \<in> set [''bar_chart'', ''line_graph'', ''table'', ''photograph'', ''map''])"
    by (simp only: list_all_iff)
qed

text \<open>The theorem at map, where the strings agree, and at flowchart, where they differ.\<close>

theorem type_string_of_shared_categories_witness:
  "''map'' \<in> set shared_categories \<and>
   map_to_label ''map'' = rendered_type ''map'' \<and>
   ''flowchart'' \<in> set shared_categories \<and>
   map_to_label ''flowchart'' \<noteq> rendered_type ''flowchart'' \<and>
   label_text (map_to_label ''flowchart'') = label_text (rendered_type ''flowchart'') \<and>
   outcome (rule_based_classification new_classifier zero_features (black_image [1, 1]))
     = Inr (''diagram'', 0.4) \<and>
   ''diagram'' \<in> set rule_categories"
proof -
  have rule: "outcome (rule_based_classification new_classifier zero_features
                         (black_image [1, 1])) = Inr (''diagram'', 0.4)"
    by (simp add: outcome_def rule_defs bind_exn_def zero_features_def black_image_def)
  note claim = type_string_of_shared_categories
         [of new_classifier zero_features "black_image [1, 1]"
             "Inl (ExternalError ''timeout'')"]
  from claim rule have diagram: "''diagram'' \<in> set rule_categories"
    by blast
  from claim have shared: "shared_categories =
     [''pie_chart'', ''bar_chart'', ''line_graph'', ''table'', ''flowchart'', ''photograph'',
      ''scientific_diagram'', ''scatter_plot'', ''map'']"
    by blast
  have mem: "''map'' \<in> set shared_categories" "''flowchart'' \<in> set shared_categories"
    by (simp_all add: shared)
  from claim have labels: "\<forall>c \<in> set shared_categories.
      label_text (map_to_label c) = label_text (rendered_type c) \<and>
      label_text (rendered_type c) = u ('' '' @ py_title (replace_underscores c))"
    by blast
  from claim have types: "\<forall>c \<in> set shared_categories.
      (map_to_label c = rendered_type c) =
      (c \<in> set [''bar_chart'', ''line_graph'', ''table'', ''photograph'', ''map''])"
    by blast
  from types mem(1) have same: "map_to_label ''map'' = rendered_type ''map''"
    by simp
  from types mem(2) have differ: "map_to_label ''flowchart'' \<noteq> rendered_type ''flowchart''"
    by simp
  from labels mem(2)
  have label: "label_text (map_to_label ''flowchart'') = label_text (rendered_type ''flowchart'')"
    by blast
  from mem same differ label rule diagram show ?thesis
    by blast
qed

text \<open>
  Both classifiers produce pie\_chart and render it differently: the rule-based one on
  an image of 10 by 10 pixels with one circle of radius 10 (circle ratio above 0.3),
  with the green circle U+1F7E2; the caption-keyword one on the caption "a pie chart",
  with the pie U+1F967.
\<close>

theorem pie_chart_type_counterexample:
  "map_of (fst (classify_figure new_classifier
                  ((black_image [10, 10])\<lparr>hough_circles := Inr (Some [10])\<rparr>))) ''type''
     = Some (UStr (0x1F7E2 # u '' Pie Chart'')) \<and>
   map_of (fst (free_classify_figure new_classifier plain_image
                  (caption_response (JStr ''a pie chart'')))) ''type''
     = Some (UStr (0x1F967 # u '' Pie Chart'')) \<and>
   map_of (fst (free_classify_figure new_classifier plain_image
                  (caption_response (JStr ''a pie chart'')))) ''classification''
     = Some (Str ''pie_chart'') \<and>
   0x1F7E2 # u '' Pie Chart'' \<noteq> 0x1F967 # u '' Pie Chart''"
proof -
  have rule: "map_of (fst (classify_figure new_classifier
                  ((black_image [10, 10])\<lparr>hough_circles := Inr (Some [10])\<rparr>))) ''type''
     = Some (UStr (0x1F7E2 # u '' Pie Chart''))"
    by (simp add: classify_figure_def extract_defs rule_defs black_image_def np_pi_def
          rule_result_def map_to_label_def dict_get_def)
  have scores: "positive_scores (keyword_scores (py_lower ''a pie chart''))
                  = [(''pie_chart'', 9), (''chart_other'', 5)]"
    by (simp add: table_defs)
  have bonus: "enhance_classification_with_analysis plain_image
                 [(''pie_chart'', 9), (''chart_other'', 5)]
               = [(''pie_chart'', 9), (''chart_other'', 5)]"
    by (simp add: enhance_classification_with_analysis_def plain_image_def black_image_def
          bind_exn_def py_div_def)
  have "\<exists>r s. classify_from_description new_classifier (JStr ''a pie chart'') plain_image
                 = (Inr r, s) \<and> map_of r ''classification'' = Some (Str ''pie_chart'')"
    by (simp add: classify_from_description_def scores bonus Let_def)
  then obtain r s where r:
    "classify_from_description new_classifier (JStr ''a pie chart'') plain_image = (Inr r, s)"
    "map_of r ''classification'' = Some (Str ''pie_chart'')"
    by blast
  then have free: "fst (free_classify_figure new_classifier plain_image
                          (caption_response (JStr ''a pie chart''))) =
      AList.update ''classification'' (Str ''pie_chart'')
        (AList.update ''type'' (UStr (rendered_type ''pie_chart'')) r)"
    by (simp add: free_classify_figure_def plain_image_caption dict_get_def)
  have glyph: "rendered_type ''pie_chart'' = 0x1F967 # u '' Pie Chart''"
    by (simp add: render_defs)
  from rule show ?thesis
    by (simp add: free update_conv' glyph)
qed

end
